theory Spec2Isabelle
  imports Main "HOL-Library.Word" "HOL-Library.Sublist"
begin

section \<open>Data model\<close>

text \<open>
  The release migration tool is written in Go against the go-github client library.
  A Go \<^verbatim>\<open>error\<close> is modelled by the text that \<^verbatim>\<open>err.Error()\<close> returns, the only thing
  the program ever inspects. A function that may panic returns a \<open>result\<close>.
\<close>

type_synonym err = string

datatype 'a result = Panic | Return 'a

text \<open>
  \<^verbatim>\<open>github.ReleaseAsset\<close> and \<^verbatim>\<open>github.RepositoryRelease\<close>: every field the program reads is
  a pointer in Go, hence an option here. \<^verbatim>\<open>ID\<close> is an \<^verbatim>\<open>int64\<close>; \<^verbatim>\<open>Size\<close> is a Go \<^verbatim>\<open>int\<close>
  that the program converts with \<^verbatim>\<open>int64(...)\<close>, a conversion that changes no value, so the
  size is kept as a 64-bit word. A nil \<^verbatim>\<open>Assets\<close> slice and an empty one behave alike in
  every place the program uses them, both are the empty list.
\<close>

record ReleaseAsset =
  Asset_Name :: "string option"
  Asset_Size :: "64 word option"
  Asset_Label :: "string option"
  Asset_ContentType :: "string option"
  Asset_BrowserDownloadURL :: "string option"

record RepositoryRelease =
  Release_ID :: "64 word option"
  Release_TagName :: "string option"
  Release_Name :: "string option"
  Release_TargetCommitish :: "string option"
  Release_Body :: "string option"
  Release_UploadURL :: "string option"
  Release_Assets :: "ReleaseAsset list"

text \<open>The nil-safe getters of go-github: the zero value stands for a nil field.\<close>

definition Asset_GetName :: "ReleaseAsset \<Rightarrow> string" where
  "Asset_GetName a = (case Asset_Name a of None \<Rightarrow> [] | Some s \<Rightarrow> s)"

definition Asset_GetSize :: "ReleaseAsset \<Rightarrow> 64 word" where
  "Asset_GetSize a = (case Asset_Size a of None \<Rightarrow> 0 | Some n \<Rightarrow> n)"

definition Asset_GetLabel :: "ReleaseAsset \<Rightarrow> string" where
  "Asset_GetLabel a = (case Asset_Label a of None \<Rightarrow> [] | Some s \<Rightarrow> s)"

definition Asset_GetContentType :: "ReleaseAsset \<Rightarrow> string" where
  "Asset_GetContentType a = (case Asset_ContentType a of None \<Rightarrow> [] | Some s \<Rightarrow> s)"

definition Asset_GetBrowserDownloadURL :: "ReleaseAsset \<Rightarrow> string" where
  "Asset_GetBrowserDownloadURL a = (case Asset_BrowserDownloadURL a of None \<Rightarrow> [] | Some s \<Rightarrow> s)"

text \<open>The release getters take the pointer: a nil release reads as the zero value too.\<close>

definition GetID :: "RepositoryRelease option \<Rightarrow> 64 word" where
  "GetID p = (case p of None \<Rightarrow> 0 | Some r \<Rightarrow> (case Release_ID r of None \<Rightarrow> 0 | Some i \<Rightarrow> i))"

definition GetTagName :: "RepositoryRelease option \<Rightarrow> string" where
  "GetTagName p = (case p of None \<Rightarrow> [] | Some r \<Rightarrow> (case Release_TagName r of None \<Rightarrow> [] | Some s \<Rightarrow> s))"

definition GetName :: "RepositoryRelease option \<Rightarrow> string" where
  "GetName p = (case p of None \<Rightarrow> [] | Some r \<Rightarrow> (case Release_Name r of None \<Rightarrow> [] | Some s \<Rightarrow> s))"

definition GetTargetCommitish :: "RepositoryRelease option \<Rightarrow> string" where
  "GetTargetCommitish p =
     (case p of None \<Rightarrow> [] | Some r \<Rightarrow> (case Release_TargetCommitish r of None \<Rightarrow> [] | Some s \<Rightarrow> s))"

definition GetUploadURL :: "RepositoryRelease option \<Rightarrow> string" where
  "GetUploadURL p = (case p of None \<Rightarrow> [] | Some r \<Rightarrow> (case Release_UploadURL r of None \<Rightarrow> [] | Some s \<Rightarrow> s))"

subsection \<open>Strings\<close>

text \<open>\<^verbatim>\<open>strings.Contains\<close>, \<^verbatim>\<open>strings.TrimSuffix\<close> and \<^verbatim>\<open>strings.Split\<close> on a one-byte separator.\<close>

definition Contains :: "string \<Rightarrow> string \<Rightarrow> bool" where
  "Contains s substr = sublist substr s"

definition TrimSuffix :: "string \<Rightarrow> string \<Rightarrow> string" where
  "TrimSuffix s sfx = (if suffix sfx s then take (length s - length sfx) s else s)"

fun Split :: "string \<Rightarrow> char \<Rightarrow> string list" where
  "Split [] sep = [[]]"
| "Split (c # cs) sep =
     (if c = sep then [] # Split cs sep
      else (case Split cs sep of [] \<Rightarrow> [[c]] | p # ps \<Rightarrow> (c # p) # ps))"

subsection \<open>What the program talks to\<close>

text \<open>
  A go-github call returns a value, a \<^verbatim>\<open>*Response\<close> and an error. On success the response is
  there; on failure it may be nil (a transport failure has no HTTP response).
\<close>

record Response =
  StatusCode :: int
  NextPage :: int

datatype 'a gh_reply = Reply 'a Response | Failure "Response option" err

datatype client = Client string string

text \<open>
  An HTTP request of the asset pipeline: the query parameters are kept as pairs instead of
  their URL encoding. A reply is a transport error or a status with the length of the body.
\<close>

record http_request =
  req_method :: string
  req_url :: string
  req_params :: "(string \<times> string) list"
  req_authorization :: string
  req_contentType :: string
  req_contentLength :: "64 word"

datatype http_reply = HttpError err | HttpResponse int "64 word"

text \<open>
  \<^verbatim>\<open>github.IssueEvent\<close>, as far as the program reads it: a chain of pointers, each of
  which may be nil.
\<close>

record User =
  Login :: "string option"

record Repository =
  Owner :: "User option"
  Repository_Name :: "string option"

record Issue =
  Number :: "int option"

record IssueEvent =
  Event_Repository :: "Repository option"
  Event_Issue :: "Issue option"

text \<open>The calls that leave the process, as they are observed from outside.\<close>

datatype call =
    CallListReleases string string int
  | CallGetLatestRelease string string
  | CallGetReleaseByTag string string string
  | CallCreateRelease string string RepositoryRelease "RepositoryRelease gh_reply"
  | CallEditRelease string string "64 word"
  | CallCreateComment string string int string
  | CallHttp http_request

text \<open>
  The world of a run: the state \<open>'h\<close> of everything outside the process (the two hosts),
  the local files with their sizes, and the calls issued so far.
\<close>

record 'h world =
  ext :: 'h
  files :: "string \<rightharpoonup> 64 word"
  trace :: "call list"

text \<open>
  The environment gives the behaviour of every library call the program makes. Nothing is
  assumed about it: each remote call may answer anything and change the outside state.
  \<open>viper\<close> is the configuration (keys are case-insensitive in viper, they are written in
  upper case here); a key that is not set reads as the empty string with \<^verbatim>\<open>GetString\<close> and
  as nil with \<^verbatim>\<open>Get\<close>.
\<close>

record 'h env =
  viper :: "string \<rightharpoonup> string"
  os_Getenv :: "string \<Rightarrow> string"
  NewRateLimitWaiterClient :: "string \<Rightarrow> err option"
  WithEnterpriseURLs :: "string \<Rightarrow> string \<Rightarrow> err option"
  Repositories_ListReleases :: "client \<Rightarrow> string \<Rightarrow> string \<Rightarrow> int \<Rightarrow> 'h \<Rightarrow> RepositoryRelease list gh_reply \<times> 'h"
  Repositories_GetLatestRelease :: "client \<Rightarrow> string \<Rightarrow> string \<Rightarrow> 'h \<Rightarrow> RepositoryRelease gh_reply \<times> 'h"
  Repositories_GetReleaseByTag :: "client \<Rightarrow> string \<Rightarrow> string \<Rightarrow> string \<Rightarrow> 'h \<Rightarrow> RepositoryRelease gh_reply \<times> 'h"
  Repositories_CreateRelease :: "client \<Rightarrow> string \<Rightarrow> string \<Rightarrow> RepositoryRelease \<Rightarrow> 'h \<Rightarrow> RepositoryRelease gh_reply \<times> 'h"
  Repositories_EditRelease :: "client \<Rightarrow> string \<Rightarrow> string \<Rightarrow> 64 word \<Rightarrow> 'h \<Rightarrow> RepositoryRelease gh_reply \<times> 'h"
  Issues_CreateComment :: "client \<Rightarrow> string \<Rightarrow> string \<Rightarrow> int \<Rightarrow> string \<Rightarrow> 'h \<Rightarrow> unit gh_reply \<times> 'h"
  http_NewRequest :: "string \<Rightarrow> string \<Rightarrow> err option"
  http_Do :: "http_request \<Rightarrow> 'h \<Rightarrow> http_reply \<times> 'h"
  os_MkdirAll :: "string \<Rightarrow> 'h \<Rightarrow> err option"
  os_Create :: "string \<Rightarrow> 'h \<Rightarrow> err option"
  io_Copy :: "string \<Rightarrow> 'h \<Rightarrow> (err \<times> 64 word) option"
  file_Stat :: "string \<Rightarrow> 'h \<Rightarrow> err option"
  mime_TypeByExtension :: "string \<Rightarrow> string"
  provenance_body :: "RepositoryRelease \<Rightarrow> string option"
  mapped_body :: "string option \<Rightarrow> string \<Rightarrow> string option"
  repository_list_file :: "string \<Rightarrow> err + string list"
  json_Unmarshal :: "string \<Rightarrow> err + IssueEvent"

definition GetString :: "'h env \<Rightarrow> string \<Rightarrow> string" where
  "GetString env key = (case viper env key of None \<Rightarrow> [] | Some v \<Rightarrow> v)"

definition record_call :: "call \<Rightarrow> 'h \<Rightarrow> 'h world \<Rightarrow> 'h world" where
  "record_call c h w = w\<lparr>ext := h, trace := trace w @ [c]\<rparr>"

section \<open>The API layer\<close>

text \<open>
  \<^verbatim>\<open>newGHRestClient\<close>: panics when the rate-limit client or the enterprise URLs cannot be
  built.
\<close>

definition newGHRestClient :: "'h env \<Rightarrow> string \<Rightarrow> string \<Rightarrow> client result" where
  "newGHRestClient env token hostname =
     (case NewRateLimitWaiterClient env token of
        Some e \<Rightarrow> Panic
      | None \<Rightarrow>
          if hostname \<noteq> [] then
            (let hostname' = TrimSuffix hostname ''/'' in
             case WithEnterpriseURLs env (''https://'' @ hostname' @ ''/api/v3'')
                    (''https://'' @ hostname' @ ''/api/uploads'') of
               Some e \<Rightarrow> Panic
             | None \<Rightarrow> Return (Client token hostname'))
          else Return (Client token []))"

text \<open>\<^verbatim>\<open>AssetExists\<close>: an asset of the release with the same name and the same size.\<close>

fun AssetExists_loop :: "ReleaseAsset list \<Rightarrow> string \<Rightarrow> 64 word \<Rightarrow> bool" where
  "AssetExists_loop [] assetName assetSize = False"
| "AssetExists_loop (existingAsset # rest) assetName assetSize =
     (if Asset_GetName existingAsset = assetName \<and> Asset_GetSize existingAsset = assetSize
      then True else AssetExists_loop rest assetName assetSize)"

definition AssetExists :: "RepositoryRelease option \<Rightarrow> string \<Rightarrow> 64 word \<Rightarrow> bool" where
  "AssetExists release assetName assetSize =
     (case release of
        None \<Rightarrow> False
      | Some r \<Rightarrow> AssetExists_loop (Release_Assets r) assetName assetSize)"

text \<open>\<^verbatim>\<open>GetReleaseByTag\<close>: the response is tested against nil before its status is read.\<close>

definition GetReleaseByTag ::
  "'h env \<Rightarrow> string \<Rightarrow> string \<Rightarrow> string \<Rightarrow> 'h world \<Rightarrow> ((err + RepositoryRelease) \<times> 'h world) result" where
  "GetReleaseByTag env owner repository tagName w =
     (case newGHRestClient env (GetString env ''TARGET_TOKEN'') [] of
        Panic \<Rightarrow> Panic
      | Return c \<Rightarrow>
          (case Repositories_GetReleaseByTag env c owner repository tagName (ext w) of
             (reply, h) \<Rightarrow>
               (let w' = record_call (CallGetReleaseByTag owner repository tagName) h w in
                case reply of
                  Failure resp e \<Rightarrow>
                    (case resp of
                       None \<Rightarrow> Return (Inl (''unable to get release by tag: '' @ e), w')
                     | Some r \<Rightarrow>
                         if StatusCode r = 404
                         then Return (Inl (''release not found for tag '' @ tagName), w')
                         else Return (Inl (''unable to get release by tag: '' @ e), w'))
                | Reply release resp \<Rightarrow> Return (Inr release, w'))))"

text \<open>
  \<^verbatim>\<open>ReleaseExists\<close>: looks the release up by its tag and compares the name and the target
  commitish. It returns the release found and whether it matches.
\<close>

definition ReleaseExists ::
  "'h env \<Rightarrow> string \<Rightarrow> string \<Rightarrow> RepositoryRelease option \<Rightarrow> 'h world
     \<Rightarrow> ((RepositoryRelease option \<times> bool) \<times> 'h world) result" where
  "ReleaseExists env owner repository release w =
     (case release of
        None \<Rightarrow> Return ((None, False), w)
      | Some r \<Rightarrow>
          if Release_TagName r = None then Return ((None, False), w)
          else
            (case GetReleaseByTag env owner repository (GetTagName release) w of
               Panic \<Rightarrow> Panic
             | Return (Inl e, w') \<Rightarrow> Return ((None, False), w')
             | Return (Inr existingRelease, w') \<Rightarrow>
                 (let nameMatches = (GetName (Some existingRelease) = GetName release);
                      commitMatches =
                        (GetTargetCommitish (Some existingRelease) = GetTargetCommitish release)
                  in if nameMatches \<and> commitMatches
                     then Return ((Some existingRelease, True), w')
                     else Return ((Some existingRelease, False), w'))))"

text \<open>
  \<^verbatim>\<open>viper.Get(key).(string)\<close>: the type assertion panics on the nil that an unset key
  gives.
\<close>

definition Get_string :: "'h env \<Rightarrow> string \<Rightarrow> string result" where
  "Get_string env key = (case viper env key of None \<Rightarrow> Panic | Some v \<Rightarrow> Return v)"

text \<open>
  \<^verbatim>\<open>CreateRelease\<close>: an error of the host that carries the code \<^verbatim>\<open>already_exists\<close> is
  replaced by an error that says "release already exists"; any other error is passed on.
\<close>

definition already_exists_error :: "string \<Rightarrow> err" where
  "already_exists_error name = ''release already exists: '' @ name"

definition CreateRelease ::
  "'h env \<Rightarrow> string \<Rightarrow> RepositoryRelease \<Rightarrow> 'h world \<Rightarrow> ((err + RepositoryRelease) \<times> 'h world) result" where
  "CreateRelease env repository release w =
     (case newGHRestClient env (GetString env ''TARGET_TOKEN'') [] of
        Panic \<Rightarrow> Panic
      | Return c \<Rightarrow>
          (case Get_string env ''TARGET_ORGANIZATION'' of
             Panic \<Rightarrow> Panic
           | Return org \<Rightarrow>
               (case Repositories_CreateRelease env c org repository release (ext w) of
                  (reply, h) \<Rightarrow>
                    (let w' = record_call (CallCreateRelease org repository release reply) h w in
                     case reply of
                       Failure resp e \<Rightarrow>
                         if Contains e ''already_exists''
                         then Return (Inl (already_exists_error (GetName (Some release))), w')
                         else Return (Inl e, w')
                     | Reply newRelease resp \<Rightarrow> Return (Inr newRelease, w')))))"

text \<open>\<^verbatim>\<open>SetLatestRelease\<close>: one edit call that sets \<^verbatim>\<open>make_latest\<close>.\<close>

definition SetLatestRelease ::
  "'h env \<Rightarrow> string \<Rightarrow> string \<Rightarrow> 64 word \<Rightarrow> 'h world \<Rightarrow> (err option \<times> 'h world) result" where
  "SetLatestRelease env owner repository releaseID w =
     (case newGHRestClient env (GetString env ''TARGET_TOKEN'') [] of
        Panic \<Rightarrow> Panic
      | Return c \<Rightarrow>
          (case Repositories_EditRelease env c owner repository releaseID (ext w) of
             (reply, h) \<Rightarrow>
               (let w' = record_call (CallEditRelease owner repository releaseID) h w in
                case reply of
                  Failure resp e \<Rightarrow> Return (Some (''error making release latest: '' @ e), w')
                | Reply r resp \<Rightarrow> Return (None, w'))))"

text \<open>
  \<^verbatim>\<open>GetSourceRepositoryLatestRelease\<close>: on an error the status of the response is read
  without a nil test, so an error that comes with no response panics.
\<close>

definition GetSourceRepositoryLatestRelease ::
  "'h env \<Rightarrow> string \<Rightarrow> string \<Rightarrow> 'h world \<Rightarrow> ((err + RepositoryRelease) \<times> 'h world) result" where
  "GetSourceRepositoryLatestRelease env owner repository w =
     (case newGHRestClient env (GetString env ''SOURCE_TOKEN'') (GetString env ''SOURCE_HOSTNAME'') of
        Panic \<Rightarrow> Panic
      | Return c \<Rightarrow>
          (case Repositories_GetLatestRelease env c owner repository (ext w) of
             (reply, h) \<Rightarrow>
               (let w' = record_call (CallGetLatestRelease owner repository) h w in
                case reply of
                  Failure resp e \<Rightarrow>
                    (case resp of
                       None \<Rightarrow> Panic
                     | Some r \<Rightarrow>
                         if StatusCode r = 404
                         then Return (Inl (''no releases found for repository '' @ owner @ ''/'' @ repository), w')
                         else Return (Inl (''unable to get latest release: '' @ e), w'))
                | Reply release resp \<Rightarrow> Return (Inr release, w'))))"

text \<open>
  \<^verbatim>\<open>GetSourceRepositoryReleases\<close>: the pages are followed until the host reports no next
  page. The loop ends only if the host ever does, so it is a partial function: \<open>None\<close> is a
  listing that never returns. On an error the releases read so far are returned with it.
\<close>

partial_function (option) ListReleases_loop ::
  "'h env \<Rightarrow> client \<Rightarrow> string \<Rightarrow> string \<Rightarrow> int \<Rightarrow> RepositoryRelease list \<Rightarrow> 'h world
     \<Rightarrow> ((RepositoryRelease list \<times> err option) \<times> 'h world) option" where
  "ListReleases_loop env c owner repository page allReleases w =
     (case Repositories_ListReleases env c owner repository page (ext w) of
        (reply, h) \<Rightarrow>
          (let w' = record_call (CallListReleases owner repository page) h w in
           case reply of
             Failure resp e \<Rightarrow> Some ((allReleases, Some (''unable to get releases: '' @ e)), w')
           | Reply releases resp \<Rightarrow>
               if NextPage resp = 0 then Some ((allReleases @ releases, None), w')
               else ListReleases_loop env c owner repository (NextPage resp) (allReleases @ releases) w'))"

declare ListReleases_loop.simps [code]

definition GetSourceRepositoryReleases ::
  "'h env \<Rightarrow> string \<Rightarrow> string \<Rightarrow> 'h world
     \<Rightarrow> ((RepositoryRelease list \<times> err option) \<times> 'h world) result option" where
  "GetSourceRepositoryReleases env owner repository w =
     (case newGHRestClient env (GetString env ''SOURCE_TOKEN'') (GetString env ''SOURCE_HOSTNAME'') of
        Panic \<Rightarrow> Some Panic
      | Return c \<Rightarrow>
          (case ListReleases_loop env c owner repository 0 [] w of
             None \<Rightarrow> None
           | Some r \<Rightarrow> Some (Return r)))"

section \<open>The asset pipeline\<close>

text \<open>
  Modelled from the spec: \<^verbatim>\<open>files.OpenFile\<close> and \<^verbatim>\<open>files.RemoveFile\<close> of the package
  \<^verbatim>\<open>internal/files\<close>, which is not among the sources. The scratch file is opened when it
  is there, and removing it deletes it ("Deletes the scratch file on success").
\<close>

definition OpenFile :: "string \<Rightarrow> 'h world \<Rightarrow> err + 64 word" where
  "OpenFile fileName w =
     (case files w fileName of
        None \<Rightarrow> Inl (''open '' @ fileName @ '': no such file or directory'')
      | Some n \<Rightarrow> Inr n)"

definition RemoveFile :: "string \<Rightarrow> 'h world \<Rightarrow> err option \<times> 'h world" where
  "RemoveFile fileName w =
     (case files w fileName of
        None \<Rightarrow> (Some (''remove '' @ fileName @ '': no such file or directory''), w)
      | Some n \<Rightarrow> (None, w\<lparr>files := (files w)(fileName := None)\<rparr>))"

definition tmpDir :: string where
  "tmpDir = ''tmp''"

text \<open>
  \<^verbatim>\<open>DownloadFileFromURL\<close>: the file is created first and then filled from the body of the
  reply. A request that cannot be built panics; every other failure is an error.
\<close>

definition download_request :: "string \<Rightarrow> string \<Rightarrow> http_request" where
  "download_request url token =
     \<lparr>req_method = ''GET'', req_url = url, req_params = [],
      req_authorization = ''Bearer '' @ token, req_contentType = [], req_contentLength = 0\<rparr>"

definition DownloadFileFromURL ::
  "'h env \<Rightarrow> string \<Rightarrow> string \<Rightarrow> string \<Rightarrow> 'h world \<Rightarrow> (err option \<times> 'h world) result" where
  "DownloadFileFromURL env url fileName token w =
     (case os_Create env fileName (ext w) of
        Some e \<Rightarrow> Return (Some e, w)
      | None \<Rightarrow>
          (let w1 = w\<lparr>files := (files w)(fileName \<mapsto> 0)\<rparr> in
           case http_NewRequest env ''GET'' url of
             Some e \<Rightarrow> Panic
           | None \<Rightarrow>
               (let req = download_request url token
                in case http_Do env req (ext w1) of
                     (reply, h) \<Rightarrow>
                       (let w2 = record_call (CallHttp req) h w1 in
                        case reply of
                          HttpError e \<Rightarrow>
                            Return (Some (''error getting file: '' @ fileName @ ''  err:'' @ e), w2)
                        | HttpResponse status n \<Rightarrow>
                            if status \<noteq> 200
                            then Return (Some ''HTTP request failed'', w2)
                            else (case io_Copy env fileName (ext w2) of
                                    Some (e, written) \<Rightarrow>
                                      Return (Some e, w2\<lparr>files := (files w2)(fileName \<mapsto> written)\<rparr>)
                                  | None \<Rightarrow>
                                      Return (None, w2\<lparr>files := (files w2)(fileName \<mapsto> n)\<rparr>))))))"

definition DownloadReleaseAssets ::
  "'h env \<Rightarrow> ReleaseAsset \<Rightarrow> 'h world \<Rightarrow> (err option \<times> 'h world) result" where
  "DownloadReleaseAssets env asset w =
     (case Get_string env ''SOURCE_TOKEN'' of
        Panic \<Rightarrow> Panic
      | Return token \<Rightarrow>
          (let url = Asset_GetBrowserDownloadURL asset;
               dirName = tmpDir;
               fileName = dirName @ ''/'' @ Asset_GetName asset
           in case os_MkdirAll env dirName (ext w) of
                Some e \<Rightarrow> Return (Some e, w)
              | None \<Rightarrow> DownloadFileFromURL env url fileName token w))"

text \<open>\<^verbatim>\<open>filepath.Ext\<close>: the suffix from the last dot of the last path element.\<close>

fun Ext_rev :: "string \<Rightarrow> string \<Rightarrow> string" where
  "Ext_rev [] acc = []"
| "Ext_rev (c # cs) acc =
     (if c = CHR ''/'' then [] else if c = CHR ''.'' then c # acc else Ext_rev cs (c # acc))"

definition filepath_Ext :: "string \<Rightarrow> string" where
  "filepath_Ext path = Ext_rev (rev path) []"

text \<open>
  \<^verbatim>\<open>UploadAssetViaURL\<close>: the scratch file is posted to the upload URL of the release and
  removed when the host answers 201. The content type of the asset is read through its
  pointer, which panics when it is nil, and so does the type assertion on the target token.
  The request carries the name and the label of the asset as parameters, the size of the
  file as its content length, and the declared content type, or the one of the file
  extension when the declared one is empty.
\<close>

definition mediaTypeOf :: "'h env \<Rightarrow> ReleaseAsset \<Rightarrow> string \<Rightarrow> string \<Rightarrow> string" where
  "mediaTypeOf env asset fileName contentType =
     (if contentType \<noteq> [] then Asset_GetContentType asset
      else mime_TypeByExtension env (filepath_Ext fileName))"

definition upload_request :: "string \<Rightarrow> ReleaseAsset \<Rightarrow> string \<Rightarrow> string \<Rightarrow> 64 word \<Rightarrow> http_request" where
  "upload_request uploadURL asset mediaType token statSize =
     \<lparr>req_method = ''POST'', req_url = uploadURL,
      req_params = [(''name'', Asset_GetName asset), (''label'', Asset_GetLabel asset)],
      req_authorization = ''Bearer '' @ token, req_contentType = mediaType,
      req_contentLength = statSize\<rparr>"

definition UploadAssetViaURL ::
  "'h env \<Rightarrow> string \<Rightarrow> ReleaseAsset \<Rightarrow> 'h world \<Rightarrow> (err option \<times> 'h world) result" where
  "UploadAssetViaURL env uploadURL asset w =
     (let dirName = tmpDir;
          fileName = dirName @ ''/'' @ Asset_GetName asset
      in case OpenFile fileName w of
           Inl e \<Rightarrow> Return (Some (''error opening file: <nil> err: '' @ e), w)
         | Inr statSize \<Rightarrow>
             (case file_Stat env fileName (ext w) of
                Some e \<Rightarrow> Return (Some (''error getting file size of '' @ fileName @ '' err: '' @ e), w)
              | None \<Rightarrow>
                  (case Asset_ContentType asset of
                     None \<Rightarrow> Panic
                   | Some contentType \<Rightarrow>
                       (let mediaType = mediaTypeOf env asset fileName contentType;
                            uploadURL' = TrimSuffix uploadURL ''{?name,label}''
                        in case http_NewRequest env ''POST'' uploadURL' of
                             Some e \<Rightarrow> Return (Some (''error creating request: '' @ e), w)
                           | None \<Rightarrow>
                               (case Get_string env ''TARGET_TOKEN'' of
                                  Panic \<Rightarrow> Panic
                                | Return token \<Rightarrow>
                                    (let req = upload_request uploadURL' asset mediaType token statSize
                                     in case http_Do env req (ext w) of
                                          (reply, h) \<Rightarrow>
                                            (let w1 = record_call (CallHttp req) h w in
                                             case reply of
                                               HttpError e \<Rightarrow>
                                                 Return (Some (''error uploading asset to release: ''
                                                               @ uploadURL' @ '' err: '' @ e), w1)
                                             | HttpResponse status n \<Rightarrow>
                                                 if status \<noteq> 201
                                                 then Return (Some (''error uploading asset to release: ''
                                                                    @ uploadURL'), w1)
                                                 else (case RemoveFile fileName w1 of
                                                         (Some e, w2) \<Rightarrow>
                                                           Return (Some (''error deleting asset from local storage: ''
                                                                         @ e), w2)
                                                       | (None, w2) \<Rightarrow> Return (None, w2)))))))))"

section \<open>The reconciliation engine\<close>

text \<open>
  Modelled from the spec: \<^verbatim>\<open>mapping.AddSourceTimeStamps\<close> and \<^verbatim>\<open>mapping.ModifyReleaseBody\<close>
  of the package \<^verbatim>\<open>internal/mapping\<close>, which is not among the sources. The spec has the
  body transform as an opaque rewriting of the release notes, whose failures are warnings:
  the first gives the release back with a new body, the second a new body.
\<close>

definition AddSourceTimeStamps :: "'h env \<Rightarrow> RepositoryRelease \<Rightarrow> RepositoryRelease" where
  "AddSourceTimeStamps env release = release\<lparr>Release_Body := provenance_body env release\<rparr>"

definition ModifyReleaseBody :: "'h env \<Rightarrow> string option \<Rightarrow> string \<Rightarrow> string option" where
  "ModifyReleaseBody env body mappingFile = mapped_body env body mappingFile"

text \<open>
  The inner loop of \<^verbatim>\<open>migrateRepositoryReleases\<close> over the assets of one release: an asset
  that the target release has is passed over, any other is downloaded and, when the download
  worked, uploaded. An error of either step only ends the turn of that asset.
\<close>

fun assetsLoop ::
  "'h env \<Rightarrow> RepositoryRelease option \<Rightarrow> ReleaseAsset list \<Rightarrow> 'h world \<Rightarrow> 'h world result" where
  "assetsLoop env newRelease [] w = Return w"
| "assetsLoop env newRelease (asset # rest) w =
     (if AssetExists newRelease (Asset_GetName asset) (Asset_GetSize asset)
      then assetsLoop env newRelease rest w
      else (case DownloadReleaseAssets env asset w of
              Panic \<Rightarrow> Panic
            | Return (Some e, w1) \<Rightarrow> assetsLoop env newRelease rest w1
            | Return (None, w1) \<Rightarrow>
                (case UploadAssetViaURL env (GetUploadURL newRelease) asset w1 of
                   Panic \<Rightarrow> Panic
                 | Return (e, w2) \<Rightarrow> assetsLoop env newRelease rest w2)))"

text \<open>The two variables that the loop over the releases updates.\<close>

record loop_vars =
  failed :: nat
  newLatestReleaseID :: "64 word"

text \<open>
  The first half of the loop body: the body of the release is rewritten, then the target
  release is found or created. \<open>Continue\<close> is the \<^verbatim>\<open>continue\<close> of the loop, \<open>Proceed\<close> carries
  \<^verbatim>\<open>newRelease\<close> on to the second half.
\<close>

datatype step = Continue | Proceed "RepositoryRelease option"

definition rewriteBody :: "'h env \<Rightarrow> RepositoryRelease \<Rightarrow> RepositoryRelease" where
  "rewriteBody env release0 =
     (let release = AddSourceTimeStamps env release0
      in release\<lparr>Release_Body :=
                    ModifyReleaseBody env (Release_Body release) (GetString env ''MAPPING_FILE'')\<rparr>)"

definition findOrCreate ::
  "'h env \<Rightarrow> string \<Rightarrow> string \<Rightarrow> RepositoryRelease \<Rightarrow> loop_vars \<Rightarrow> 'h world
     \<Rightarrow> ((step \<times> loop_vars) \<times> 'h world) result" where
  "findOrCreate env targetOrg repository release vs w =
     (case ReleaseExists env targetOrg repository (Some release) w of
        Panic \<Rightarrow> Panic
      | Return ((existingRelease, releaseExists), w1) \<Rightarrow>
          if releaseExists then Return ((Proceed existingRelease, vs), w1)
          else
            (case CreateRelease env repository release w1 of
               Panic \<Rightarrow> Panic
             | Return (Inr newRelease, w2) \<Rightarrow> Return ((Proceed (Some newRelease), vs), w2)
             | Return (Inl e, w2) \<Rightarrow>
                 if Contains e ''already exists'' then
                   (case GetReleaseByTag env targetOrg repository (GetTagName (Some release)) w2 of
                      Panic \<Rightarrow> Panic
                    | Return (Inl e', w3) \<Rightarrow> Return ((Continue, vs), w3)
                    | Return (Inr existingRelease', w3) \<Rightarrow>
                        Return ((Proceed (Some existingRelease'), vs), w3))
                 else Return ((Continue, vs\<lparr>failed := failed vs + 1\<rparr>), w2)))"

text \<open>The loop body: find or create, remember the latest candidate, transfer the assets.\<close>

definition loopBody ::
  "'h env \<Rightarrow> string \<Rightarrow> string \<Rightarrow> 64 word \<Rightarrow> RepositoryRelease \<Rightarrow> loop_vars \<Rightarrow> 'h world
     \<Rightarrow> (loop_vars \<times> 'h world) result" where
  "loopBody env targetOrg repository latestID release0 vs w =
     (let release = rewriteBody env release0
      in case findOrCreate env targetOrg repository release vs w of
           Panic \<Rightarrow> Panic
         | Return ((Continue, vs1), w1) \<Rightarrow> Return (vs1, w1)
         | Return ((Proceed newRelease, vs1), w1) \<Rightarrow>
             (let vs2 = (if latestID \<noteq> 0 \<and> GetID (Some release) = latestID
                         then vs1\<lparr>newLatestReleaseID := GetID newRelease\<rparr> else vs1)
              in case assetsLoop env newRelease (Release_Assets release) w1 of
                   Panic \<Rightarrow> Panic
                 | Return w2 \<Rightarrow> Return (vs2, w2)))"

fun releasesLoop ::
  "'h env \<Rightarrow> string \<Rightarrow> string \<Rightarrow> 64 word \<Rightarrow> RepositoryRelease list \<Rightarrow> loop_vars \<Rightarrow> 'h world
     \<Rightarrow> (loop_vars \<times> 'h world) result" where
  "releasesLoop env targetOrg repository latestID [] vs w = Return (vs, w)"
| "releasesLoop env targetOrg repository latestID (release # rest) vs w =
     (case loopBody env targetOrg repository latestID release vs w of
        Panic \<Rightarrow> Panic
      | Return (vs1, w1) \<Rightarrow> releasesLoop env targetOrg repository latestID rest vs1 w1)"

text \<open>
  \<^verbatim>\<open>migrateRepositoryReleases\<close>. The owner is the part before the slash or the configured
  source organization. A listing that fails is reported through \<^verbatim>\<open>pterm.Fatal\<close>, the printer
  of pterm that panics once it has printed, so the run ends there. A failure to fetch the
  latest release leaves \<^verbatim>\<open>latestID\<close> zero. After the loop the latest candidate, when there
  is one, is marked on the target; an error of that call is a warning. The result is the
  number of releases listed, the number of failures and the error of the function.
\<close>

definition splitRepository :: "'h env \<Rightarrow> string \<Rightarrow> (string \<times> string) result" where
  "splitRepository env repository =
     (if Contains repository ''/'' then
        (case Split repository (CHR ''/'') of
           owner # repository' # parts \<Rightarrow> Return (owner, repository')
         | _ \<Rightarrow> Panic)
      else Return (GetString env ''SOURCE_ORGANIZATION'', repository))"

definition finish :: "RepositoryRelease list \<Rightarrow> loop_vars \<Rightarrow> nat \<times> nat \<times> err option" where
  "finish releases vs =
     (if failed vs > 0 then (length releases, failed vs, Some ''some releases failed to create'')
      else (length releases, failed vs, None))"

definition migrateRepositoryReleases ::
  "'h env \<Rightarrow> string \<Rightarrow> 'h world \<Rightarrow> ((nat \<times> nat \<times> err option) \<times> 'h world) result option" where
  "migrateRepositoryReleases env repository0 w =
     (case splitRepository env repository0 of
        Panic \<Rightarrow> Some Panic
      | Return (owner, repository) \<Rightarrow>
          (let targetOrg = GetString env ''TARGET_ORGANIZATION'' in
           case GetSourceRepositoryReleases env owner repository w of
             None \<Rightarrow> None
           | Some Panic \<Rightarrow> Some Panic
           | Some (Return ((releases, Some e), w1)) \<Rightarrow> Some Panic
           | Some (Return ((releases, None), w1)) \<Rightarrow>
               (case GetSourceRepositoryLatestRelease env owner repository w1 of
                  Panic \<Rightarrow> Some Panic
                | Return (latest, w2) \<Rightarrow>
                    (let latestID = (case latest of Inl e \<Rightarrow> 0 | Inr latestRelease \<Rightarrow> GetID (Some latestRelease))
                     in case releasesLoop env targetOrg repository latestID releases
                               \<lparr>failed = 0, newLatestReleaseID = 0\<rparr> w2 of
                          Panic \<Rightarrow> Some Panic
                        | Return (vs, w3) \<Rightarrow>
                            if newLatestReleaseID vs \<noteq> 0 then
                              (case SetLatestRelease env targetOrg repository (newLatestReleaseID vs) w3 of
                                 Panic \<Rightarrow> Some Panic
                               | Return (e, w4) \<Rightarrow> Some (Return (finish releases vs, w4)))
                            else Some (Return (finish releases vs, w3))))))"

section \<open>The driver\<close>

text \<open>
  \<^verbatim>\<open>checkVars\<close> ends the process with status 1 when both a repository and a repository list
  are given, or a repository without a source organization. The result is the exit status,
  if the process exits.
\<close>

definition checkVars :: "'h env \<Rightarrow> int option" where
  "checkVars env =
     (if GetString env ''REPOSITORY'' \<noteq> [] \<and> GetString env ''REPOSITORY_LIST'' \<noteq> [] then Some 1
      else if GetString env ''REPOSITORY'' \<noteq> [] \<and> GetString env ''SOURCE_ORGANIZATION'' = [] then Some 1
      else None)"

text \<open>
  \<^verbatim>\<open>GetDatafromGitHubContext\<close> and \<^verbatim>\<open>WriteToIssue\<close>. The fields of the event are read
  through their pointers, each of which panics when it is nil.
\<close>

definition GetDatafromGitHubContext :: "'h env \<Rightarrow> (string \<times> string \<times> int \<times> err option) result" where
  "GetDatafromGitHubContext env =
     (let githubContext = os_Getenv env ''GITHUB_CONTEXT'' in
      if githubContext = [] then Return ([], [], 0, Some ''GITHUB_CONTEXT is not set or empty'')
      else
        (case json_Unmarshal env githubContext of
           Inl e \<Rightarrow> Return ([], [], 0, Some (''error unmarshalling GITHUB_CONTEXT: '' @ e))
         | Inr issueEvent \<Rightarrow>
             (case Event_Repository issueEvent of
                None \<Rightarrow> Panic
              | Some repo \<Rightarrow>
                  (case Owner repo of
                     None \<Rightarrow> Panic
                   | Some user \<Rightarrow>
                       (case Login user of
                          None \<Rightarrow> Panic
                        | Some organization \<Rightarrow>
                            (case Repository_Name repo of
                               None \<Rightarrow> Panic
                             | Some repository \<Rightarrow>
                                 (case Event_Issue issueEvent of
                                    None \<Rightarrow> Panic
                                  | Some issue \<Rightarrow>
                                      (case Number issue of
                                         None \<Rightarrow> Panic
                                       | Some issueNumber \<Rightarrow>
                                           Return (organization, repository, issueNumber, None)))))))))"

definition WriteToIssue ::
  "'h env \<Rightarrow> string \<Rightarrow> string \<Rightarrow> int \<Rightarrow> string \<Rightarrow> 'h world \<Rightarrow> (err option \<times> 'h world) result" where
  "WriteToIssue env owner repository issueNumber comment w =
     (case newGHRestClient env (GetString env ''TARGET_TOKEN'') [] of
        Panic \<Rightarrow> Panic
      | Return c \<Rightarrow>
          (case Issues_CreateComment env c owner repository issueNumber comment (ext w) of
             (reply, h) \<Rightarrow>
               (let w' = record_call (CallCreateComment owner repository issueNumber comment) h w in
                case reply of
                  Failure resp e \<Rightarrow> Return (Some e, w')
                | Reply u resp \<Rightarrow> Return (None, w'))))"

text \<open>The decimal digits of a counter, for the summary table.\<close>

fun itoa :: "nat \<Rightarrow> string" where
  "itoa n = (if n < 10 then [char_of (48 + n)] else itoa (n div 10) @ [char_of (48 + n mod 10)])"

declare itoa.simps [simp del]

definition summaryTable :: "nat \<Rightarrow> nat \<Rightarrow> string" where
  "summaryTable totalReleases totalFailed =
     ''| No. of Releases | Succeeded | Failed |'' @ [CHR 0x0A] @
     ''| --------------- | --------- | ------ |'' @ [CHR 0x0A] @
     ''| '' @ itoa totalReleases @ '' | '' @ itoa (totalReleases - totalFailed) @ '' | ''
       @ itoa totalFailed @ '' |'' @ [CHR 0x0A]"

text \<open>
  The loop of \<^verbatim>\<open>SyncReleases\<close> over the repositories of the list: the error that a
  migration returns is printed, the counters are added up.
\<close>

fun repositoriesLoop ::
  "'h env \<Rightarrow> string list \<Rightarrow> nat \<times> nat \<Rightarrow> 'h world \<Rightarrow> ((nat \<times> nat) \<times> 'h world) result option" where
  "repositoriesLoop env [] totals w = Some (Return (totals, w))"
| "repositoriesLoop env (repository # rest) totals w =
     (case migrateRepositoryReleases env repository w of
        None \<Rightarrow> None
      | Some Panic \<Rightarrow> Some Panic
      | Some (Return ((releasesCount, failedReleases, e), w1)) \<Rightarrow>
          repositoriesLoop env rest (fst totals + releasesCount, snd totals + failedReleases) w1)"

text \<open>
  How the process ends: it exits with a status through \<^verbatim>\<open>os.Exit\<close>, it panics, or
  \<^verbatim>\<open>SyncReleases\<close> returns with the two totals.
\<close>

datatype 'h ending = Exit int | Panicked | Returned nat nat "'h world"

definition report :: "'h env \<Rightarrow> nat \<Rightarrow> nat \<Rightarrow> 'h world \<Rightarrow> 'h ending" where
  "report env totalReleases totalFailed w =
     (if os_Getenv env ''CI'' = ''true'' \<and> os_Getenv env ''GITHUB_ACTIONS'' = ''true'' then
        (let message = summaryTable totalReleases totalFailed in
         case GetDatafromGitHubContext env of
           Panic \<Rightarrow> Panicked
         | Return (organization, repository, issueNumber, e) \<Rightarrow>
             if issueNumber = 0 then Returned totalReleases totalFailed w
             else (case WriteToIssue env organization repository issueNumber message w of
                     Panic \<Rightarrow> Panicked
                   | Return (e', w1) \<Rightarrow> Returned totalReleases totalFailed w1))
      else Returned totalReleases totalFailed w)"

definition SyncReleases :: "'h env \<Rightarrow> 'h world \<Rightarrow> 'h ending option" where
  "SyncReleases env w =
     (case checkVars env of
        Some status \<Rightarrow> Some (Exit status)
      | None \<Rightarrow>
          if GetString env ''REPOSITORY_LIST'' \<noteq> [] then
            (case repository_list_file env (GetString env ''REPOSITORY_LIST'') of
               Inl e \<Rightarrow> Some (Exit 1)
             | Inr repositories \<Rightarrow>
                 (case repositoriesLoop env repositories (0, 0) w of
                    None \<Rightarrow> None
                  | Some Panic \<Rightarrow> Some Panicked
                  | Some (Return ((totalReleases, totalFailed), w1)) \<Rightarrow>
                      Some (report env totalReleases totalFailed w1)))
          else if GetString env ''REPOSITORY'' \<noteq> [] then
            (case migrateRepositoryReleases env (GetString env ''REPOSITORY'') w of
               None \<Rightarrow> None
             | Some Panic \<Rightarrow> Some Panicked
             | Some (Return ((releasesCount, failedReleases, e), w1)) \<Rightarrow>
                 Some (report env (0 + releasesCount) (0 + failedReleases) w1))
          else Some (Exit 1))"

section \<open>A host that keeps what it is given\<close>

text \<open>
  Modelled from the spec: the remote release directory of section 4.1, which is a service
  outside the repository. The source side lists its releases in one page, reports its
  latest release and serves the content behind a download URL. The target side finds a
  release by its tag, refuses to create a release without a tag, answers a second release
  with the same tag with the code \<^verbatim>\<open>already_exists\<close>, and stores an uploaded asset under the
  release that owns the upload URL unless the release has an asset of that name. It serves
  as the concrete host of the examples and of the statement on running twice.
\<close>

record host =
  source_releases :: "RepositoryRelease list"
  source_latest :: "RepositoryRelease option"
  source_content :: "(string \<times> 64 word) list"
  target_releases :: "RepositoryRelease list"
  target_latest :: "64 word option"
  next_id :: "64 word"

definition ok :: Response where
  "ok = \<lparr>StatusCode = 200, NextPage = 0\<rparr>"

definition status :: "int \<Rightarrow> Response" where
  "status n = \<lparr>StatusCode = n, NextPage = 0\<rparr>"

definition upload_suffix :: string where
  "upload_suffix = ''{?name,label}''"

definition upload_url_of :: "string \<Rightarrow> string" where
  "upload_url_of tag = ''https://uploads.example/'' @ tag @ ''/assets'' @ upload_suffix"

definition already_exists_422 :: err where
  "already_exists_422 =
     ''422 Validation Failed [{Resource:Release Field:tag_name Code:already_exists Message:}]''"

definition missing_field_422 :: err where
  "missing_field_422 =
     ''422 Validation Failed [{Resource:Release Field:tag_name Code:missing_field Message:}]''"

definition host_ListReleases ::
  "client \<Rightarrow> string \<Rightarrow> string \<Rightarrow> int \<Rightarrow> host \<Rightarrow> RepositoryRelease list gh_reply \<times> host" where
  "host_ListReleases c owner repository page h = (Reply (source_releases h) ok, h)"

definition host_GetLatestRelease ::
  "client \<Rightarrow> string \<Rightarrow> string \<Rightarrow> host \<Rightarrow> RepositoryRelease gh_reply \<times> host" where
  "host_GetLatestRelease c owner repository h =
     (case source_latest h of
        None \<Rightarrow> (Failure (Some (status 404)) ''404 Not Found'', h)
      | Some r \<Rightarrow> (Reply r ok, h))"

definition host_GetReleaseByTag ::
  "client \<Rightarrow> string \<Rightarrow> string \<Rightarrow> string \<Rightarrow> host \<Rightarrow> RepositoryRelease gh_reply \<times> host" where
  "host_GetReleaseByTag c owner repository tag h =
     (case find (\<lambda>r. Release_TagName r = Some tag) (target_releases h) of
        None \<Rightarrow> (Failure (Some (status 404)) ''404 Not Found'', h)
      | Some r \<Rightarrow> (Reply r ok, h))"

definition host_CreateRelease ::
  "client \<Rightarrow> string \<Rightarrow> string \<Rightarrow> RepositoryRelease \<Rightarrow> host \<Rightarrow> RepositoryRelease gh_reply \<times> host" where
  "host_CreateRelease c org repository release h =
     (case Release_TagName release of
        None \<Rightarrow>
          (Failure (Some (status 422)) missing_field_422, h)
      | Some tag \<Rightarrow>
          (case find (\<lambda>r. Release_TagName r = Some tag) (target_releases h) of
             Some r \<Rightarrow>
               (Failure (Some (status 422)) already_exists_422, h)
           | None \<Rightarrow>
               (let new = release\<lparr>Release_ID := Some (next_id h),
                                  Release_UploadURL := Some (upload_url_of tag),
                                  Release_Assets := []\<rparr>
                in (Reply new (status 201),
                    h\<lparr>target_releases := target_releases h @ [new], next_id := next_id h + 1\<rparr>))))"

definition host_EditRelease ::
  "client \<Rightarrow> string \<Rightarrow> string \<Rightarrow> 64 word \<Rightarrow> host \<Rightarrow> RepositoryRelease gh_reply \<times> host" where
  "host_EditRelease c owner repository releaseID h =
     (case find (\<lambda>r. Release_ID r = Some releaseID) (target_releases h) of
        None \<Rightarrow> (Failure (Some (status 404)) ''404 Not Found'', h)
      | Some r \<Rightarrow> (Reply r ok, h\<lparr>target_latest := Some releaseID\<rparr>))"

definition host_CreateComment ::
  "client \<Rightarrow> string \<Rightarrow> string \<Rightarrow> int \<Rightarrow> string \<Rightarrow> host \<Rightarrow> unit gh_reply \<times> host" where
  "host_CreateComment c owner repository issueNumber comment h = (Reply () (status 201), h)"

text \<open>The asset that an upload request stores, and the store of the target with it added.\<close>

definition uploaded_asset :: "http_request \<Rightarrow> ReleaseAsset" where
  "uploaded_asset req =
     \<lparr>Asset_Name = map_of (req_params req) ''name'',
      Asset_Size = Some (req_contentLength req),
      Asset_Label = map_of (req_params req) ''label'',
      Asset_ContentType = Some (req_contentType req),
      Asset_BrowserDownloadURL = None\<rparr>"

fun add_asset :: "string \<Rightarrow> ReleaseAsset \<Rightarrow> RepositoryRelease list \<Rightarrow> RepositoryRelease list option" where
  "add_asset url a [] = None"
| "add_asset url a (r # rs) =
     (if TrimSuffix (GetUploadURL (Some r)) upload_suffix = url then
        (if Asset_GetName a \<in> set (map Asset_GetName (Release_Assets r)) then None
         else Some (r\<lparr>Release_Assets := Release_Assets r @ [a]\<rparr> # rs))
      else map_option ((#) r) (add_asset url a rs))"

definition host_Do :: "http_request \<Rightarrow> host \<Rightarrow> http_reply \<times> host" where
  "host_Do req h =
     (if req_method req = ''GET'' then
        (case map_of (source_content h) (req_url req) of
           None \<Rightarrow> (HttpResponse 404 0, h)
         | Some n \<Rightarrow> (HttpResponse 200 n, h))
      else
        (case add_asset (req_url req) (uploaded_asset req) (target_releases h) of
           None \<Rightarrow> (HttpResponse 422 0, h)
         | Some rs \<Rightarrow> (HttpResponse 201 0, h\<lparr>target_releases := rs\<rparr>)))"

text \<open>
  The environment of a run against that host: a single repository \<^verbatim>\<open>repo\<close> of the source
  organization \<^verbatim>\<open>src\<close>, migrated to the organization \<^verbatim>\<open>dst\<close>; no local operation fails and
  the body of a release is left as it is.
\<close>

definition config :: "string \<rightharpoonup> string" where
  "config =
     [''REPOSITORY'' \<mapsto> ''repo'', ''SOURCE_ORGANIZATION'' \<mapsto> ''src'',
      ''TARGET_ORGANIZATION'' \<mapsto> ''dst'', ''SOURCE_TOKEN'' \<mapsto> ''s3cret'',
      ''TARGET_TOKEN'' \<mapsto> ''t0ken'']"

definition host_env :: "host env" where
  "host_env =
     \<lparr>viper = config,
      os_Getenv = (\<lambda>k. []),
      NewRateLimitWaiterClient = (\<lambda>t. None),
      WithEnterpriseURLs = (\<lambda>b u. None),
      Repositories_ListReleases = host_ListReleases,
      Repositories_GetLatestRelease = host_GetLatestRelease,
      Repositories_GetReleaseByTag = host_GetReleaseByTag,
      Repositories_CreateRelease = host_CreateRelease,
      Repositories_EditRelease = host_EditRelease,
      Issues_CreateComment = host_CreateComment,
      http_NewRequest = (\<lambda>m u. None),
      http_Do = host_Do,
      os_MkdirAll = (\<lambda>d h. None),
      os_Create = (\<lambda>f h. None),
      io_Copy = (\<lambda>f h. None),
      file_Stat = (\<lambda>f h. None),
      mime_TypeByExtension = (\<lambda>e. ''application/octet-stream''),
      provenance_body = Release_Body,
      mapped_body = (\<lambda>b f. b),
      repository_list_file = (\<lambda>f. Inl ''no such file''),
      json_Unmarshal = (\<lambda>s. Inl ''unexpected end of JSON input'')\<rparr>"

definition start :: "host \<Rightarrow> host world" where
  "start h = \<lparr>ext = h, files = Map.empty, trace = []\<rparr>"

section \<open>Observing a run\<close>

text \<open>
  The loop takes a failed creation for a conflict when the error of \<^verbatim>\<open>CreateRelease\<close>
  contains "already exists"; that is the case when the error of the host carries the code
  \<^verbatim>\<open>already_exists\<close> or contains these words itself. A create call that failed with any
  other error is a failed creation; an edit call is the one that marks the latest release.
\<close>

definition conflict :: "err \<Rightarrow> bool" where
  "conflict e \<longleftrightarrow> Contains e ''already_exists'' \<or> Contains e ''already exists''"

fun failedCreate :: "call \<Rightarrow> bool" where
  "failedCreate (CallCreateRelease org repository release (Failure resp e)) = (\<not> conflict e)"
| "failedCreate c = False"

fun isEditRelease :: "call \<Rightarrow> bool" where
  "isEditRelease (CallEditRelease owner repository releaseID) = True"
| "isEditRelease c = False"

text \<open>What is looked at after a run: the result, the calls and the releases of the target.\<close>

definition outcome ::
  "('a \<times> host world) result option \<Rightarrow> ('a \<times> call list \<times> RepositoryRelease list) result option" where
  "outcome r = map_option (map_result (\<lambda>(x, w). (x, trace w, target_releases (ext w)))) r"

section \<open>Examples\<close>

text \<open>A source with one release that carries one asset, and a target that is still empty.\<close>

definition build_zip :: ReleaseAsset where
  "build_zip =
     \<lparr>Asset_Name = Some ''build.zip'', Asset_Size = Some 1024, Asset_Label = None,
      Asset_ContentType = Some ''application/zip'',
      Asset_BrowserDownloadURL = Some ''https://src.example/build.zip''\<rparr>"

definition release_v1 :: RepositoryRelease where
  "release_v1 =
     \<lparr>Release_ID = Some 7, Release_TagName = Some ''v1.0'', Release_Name = Some ''A'',
      Release_TargetCommitish = Some ''main'', Release_Body = None, Release_UploadURL = None,
      Release_Assets = [build_zip]\<rparr>"

definition fresh_host :: host where
  "fresh_host =
     \<lparr>source_releases = [release_v1], source_latest = Some release_v1,
      source_content = [(''https://src.example/build.zip'', 1024)],
      target_releases = [], target_latest = None, next_id = 1\<rparr>"

text \<open>An environment in which the two lookups fail before any response arrives.\<close>

definition offline_env :: "host env" where
  "offline_env =
     host_env\<lparr>Repositories_GetLatestRelease :=
                (\<lambda>c owner repository h. (Failure None ''dial tcp: i/o timeout'', h)),
              Repositories_GetReleaseByTag :=
                (\<lambda>c owner repository tag h. (Failure None ''dial tcp: i/o timeout'', h))\<rparr>"

text \<open>The target once the release and its asset are there, and a second asset of another size.\<close>

definition target_v1 :: RepositoryRelease where
  "target_v1 =
     \<lparr>Release_ID = Some 1, Release_TagName = Some ''v1.0'', Release_Name = Some ''A'',
      Release_TargetCommitish = Some ''main'', Release_Body = None,
      Release_UploadURL = Some ''https://uploads.example/v1.0/assets{?name,label}'',
      Release_Assets = [build_zip\<lparr>Asset_BrowserDownloadURL := None\<rparr>]\<rparr>"

definition migrated_host :: host where
  "migrated_host = fresh_host\<lparr>target_releases := [target_v1], next_id := 2\<rparr>"


text \<open>
  A target whose release of the same tag has another name; an environment whose target
  answers every creation with a conflict and fails every lookup; a release without a tag.
\<close>

definition target_v1_renamed :: RepositoryRelease where
  "target_v1_renamed = target_v1\<lparr>Release_Name := Some ''B'', Release_Assets := []\<rparr>"

definition renamed_host :: host where
  "renamed_host = fresh_host\<lparr>target_releases := [target_v1_renamed], next_id := 2\<rparr>"

definition conflicting_env :: "host env" where
  "conflicting_env =
     host_env\<lparr>Repositories_GetReleaseByTag :=
                (\<lambda>c owner repository tag h. (Failure (Some (status 502)) ''502 Bad Gateway'', h)),
              Repositories_CreateRelease :=
                (\<lambda>c org repository release h. (Failure (Some (status 422)) already_exists_422, h))\<rparr>"

definition no_vars :: loop_vars where
  "no_vars = \<lparr>failed = 0, newLatestReleaseID = 0\<rparr>"

definition release_untagged :: RepositoryRelease where
  "release_untagged =
     \<lparr>Release_ID = Some 8, Release_TagName = None, Release_Name = Some ''draft'',
      Release_TargetCommitish = Some ''main'', Release_Body = None, Release_UploadURL = None,
      Release_Assets = [build_zip]\<rparr>"


text \<open>The world right after the asset was downloaded to the scratch directory.\<close>

definition downloaded :: "host \<Rightarrow> host world" where
  "downloaded h = \<lparr>ext = h, files = [''tmp/build.zip'' \<mapsto> 1024], trace = []\<rparr>"

text \<open>The id that \<^verbatim>\<open>migrateRepositoryReleases\<close> keeps as \<^verbatim>\<open>latestID\<close>: zero when the fetch failed.\<close>

definition latestIDof :: "err + RepositoryRelease \<Rightarrow> 64 word" where
  "latestIDof latest = (case latest of Inl e \<Rightarrow> 0 | Inr latestRelease \<Rightarrow> GetID (Some latestRelease))"


fun created :: "http_reply \<Rightarrow> bool" where
  "created (HttpResponse st n) = (st = 201)"
| "created (HttpError e) = False"

text \<open>
  The conditions of a run of the driver. A configuration error is what \<^verbatim>\<open>checkVars\<close> and
  \<^verbatim>\<open>SyncReleases\<close> refuse: a repository together with a repository list, a repository
  without a source organization, or neither of the two. The clients and the listing work
  when both API clients can be built, every listing of source releases ends without an
  error and lists assets that carry a content type, and a failed fetch of the latest
  release comes with a response. The inputs are complete when the two tokens and the target
  organization are set, a download request can be built from every URL, and the event
  payload of the Actions context has the fields that are read.
\<close>

definition with_content_types :: "RepositoryRelease list \<Rightarrow> bool" where
  "with_content_types releases \<longleftrightarrow>
     (\<forall>r \<in> set releases. \<forall>a \<in> set (Release_Assets r). Asset_ContentType a \<noteq> None)"

definition configuration_error :: "'h env \<Rightarrow> bool" where
  "configuration_error env \<longleftrightarrow>
     (GetString env ''REPOSITORY'' \<noteq> [] \<and> GetString env ''REPOSITORY_LIST'' \<noteq> [])
     \<or> (GetString env ''REPOSITORY'' \<noteq> [] \<and> GetString env ''SOURCE_ORGANIZATION'' = [])
     \<or> (GetString env ''REPOSITORY'' = [] \<and> GetString env ''REPOSITORY_LIST'' = [])"

definition unreadable_list :: "'h env \<Rightarrow> bool" where
  "unreadable_list env \<longleftrightarrow>
     GetString env ''REPOSITORY_LIST'' \<noteq> []
     \<and> (\<exists>e. repository_list_file env (GetString env ''REPOSITORY_LIST'') = Inl e)"

definition clients_and_listing_work :: "'h env \<Rightarrow> bool" where
  "clients_and_listing_work env \<longleftrightarrow>
     (\<exists>cs ct.
        newGHRestClient env (GetString env ''SOURCE_TOKEN'') (GetString env ''SOURCE_HOSTNAME'') = Return cs
      \<and> newGHRestClient env (GetString env ''TARGET_TOKEN'') [] = Return ct
      \<and> (\<forall>owner repository w. \<exists>releases w1.
             ListReleases_loop env cs owner repository 0 [] w = Some ((releases, None), w1)
             \<and> with_content_types releases)
      \<and> (\<forall>owner repository h e h'.
             Repositories_GetLatestRelease env cs owner repository h \<noteq> (Failure None e, h')))"

definition inputs_complete :: "'h env \<Rightarrow> bool" where
  "inputs_complete env \<longleftrightarrow>
     viper env ''SOURCE_TOKEN'' \<noteq> None \<and> viper env ''TARGET_TOKEN'' \<noteq> None
     \<and> viper env ''TARGET_ORGANIZATION'' \<noteq> None
     \<and> (\<forall>url. http_NewRequest env ''GET'' url = None)
     \<and> GetDatafromGitHubContext env \<noteq> Panic"

text \<open>
  Environments for the driver: one whose enterprise URLs cannot be built, one whose listing
  fails, and one in which the listing works and every lookup, download and edit fails.
\<close>

definition enterprise_env :: "host env" where
  "enterprise_env =
     host_env\<lparr>viper := config(''SOURCE_HOSTNAME'' \<mapsto> ''ghe example.com''),
              WithEnterpriseURLs := (\<lambda>b u. Some ''parse: invalid character in host name'')\<rparr>"

definition listing_fails_env :: "host env" where
  "listing_fails_env =
     host_env\<lparr>Repositories_ListReleases :=
                (\<lambda>c owner repository page h. (Failure (Some (status 502)) ''502 Bad Gateway'', h))\<rparr>"

definition failing_env :: "host env" where
  "failing_env =
     host_env\<lparr>Repositories_ListReleases :=
                (\<lambda>c owner repository page h. (Reply [release_untagged, release_v1] ok, h)),
              Repositories_GetLatestRelease :=
                (\<lambda>c owner repository h. (Failure (Some (status 404)) ''404 Not Found'', h)),
              Repositories_GetReleaseByTag :=
                (\<lambda>c owner repository tag h. (Failure None ''dial tcp: i/o timeout'', h)),
              Repositories_EditRelease :=
                (\<lambda>c owner repository releaseID h. (Failure None ''dial tcp: i/o timeout'', h)),
              http_Do := (\<lambda>req h. (HttpError ''dial tcp: i/o timeout'', h))\<rparr>"

definition ending_seen :: "'h ending option \<Rightarrow> (nat \<times> nat) option" where
  "ending_seen r = (case r of Some (Returned a b w) \<Rightarrow> Some (a, b) | _ \<Rightarrow> None)"

definition panicked :: "'h ending option \<Rightarrow> bool" where
  "panicked r = (case r of Some Panicked \<Rightarrow> True | _ \<Rightarrow> False)"

section \<open>Properties\<close>

subsection \<open>The configuration of the example environment\<close>

lemma config_simps:
  "GetString host_env ''SOURCE_TOKEN'' = ''s3cret''"
  "GetString host_env ''TARGET_TOKEN'' = ''t0ken''"
  "GetString host_env ''SOURCE_HOSTNAME'' = []"
  "GetString host_env ''TARGET_ORGANIZATION'' = ''dst''"
  "GetString host_env ''SOURCE_ORGANIZATION'' = ''src''"
  "GetString host_env ''REPOSITORY'' = ''repo''"
  "GetString host_env ''REPOSITORY_LIST'' = []"
  "GetString host_env ''MAPPING_FILE'' = []"
  by (simp_all add: GetString_def host_env_def config_def)

subsection \<open>Fetching the latest release of the source\<close>

text \<open>
  C9. When the call for the latest release of the source fails and brings no response,
  \<^verbatim>\<open>GetSourceRepositoryLatestRelease\<close> panics, because it reads the status of the nil
  response. \<^verbatim>\<open>GetReleaseByTag\<close> in the same situation returns an error, because it tests
  the response against nil first.
\<close>

theorem latest_release_without_response_panics:
  assumes "newGHRestClient env (GetString env ''SOURCE_TOKEN'') (GetString env ''SOURCE_HOSTNAME'') = Return c"
    and "Repositories_GetLatestRelease env c owner repository (ext w) = (Failure None e, h)"
    and "newGHRestClient env (GetString env ''TARGET_TOKEN'') [] = Return c'"
    and "Repositories_GetReleaseByTag env c' owner' repository' tagName (ext w) = (Failure None e', h')"
  shows "GetSourceRepositoryLatestRelease env owner repository w = Panic
       \<and> GetReleaseByTag env owner' repository' tagName w =
           Return (Inl (''unable to get release by tag: '' @ e'),
                   record_call (CallGetReleaseByTag owner' repository' tagName) h' w)"
  using assms by (simp add: GetSourceRepositoryLatestRelease_def GetReleaseByTag_def)

theorem latest_release_without_response_panics_witness:
  "GetSourceRepositoryLatestRelease offline_env ''src'' ''repo'' (start fresh_host) = Panic
   \<and> GetReleaseByTag offline_env ''dst'' ''repo'' ''v1.0'' (start fresh_host) =
       Return (Inl ''unable to get release by tag: dial tcp: i/o timeout'',
               record_call (CallGetReleaseByTag ''dst'' ''repo'' ''v1.0'') fresh_host (start fresh_host))"
proof -
  have 1: "newGHRestClient offline_env (GetString offline_env ''SOURCE_TOKEN'')
             (GetString offline_env ''SOURCE_HOSTNAME'') = Return (Client ''s3cret'' [])"
    by (simp add: newGHRestClient_def offline_env_def GetString_def host_env_def config_def)
  have 2: "Repositories_GetLatestRelease offline_env (Client ''s3cret'' []) ''src'' ''repo''
             (ext (start fresh_host)) = (Failure None ''dial tcp: i/o timeout'', fresh_host)"
    by (simp add: offline_env_def start_def)
  have 3: "newGHRestClient offline_env (GetString offline_env ''TARGET_TOKEN'') []
             = Return (Client ''t0ken'' [])"
    by (simp add: newGHRestClient_def offline_env_def GetString_def host_env_def config_def)
  have 4: "Repositories_GetReleaseByTag offline_env (Client ''t0ken'' []) ''dst'' ''repo'' ''v1.0''
             (ext (start fresh_host)) = (Failure None ''dial tcp: i/o timeout'', fresh_host)"
    by (simp add: offline_env_def start_def)
  show ?thesis
    using latest_release_without_response_panics [OF 1 2 3 4] by simp
qed

subsection \<open>Matching a release\<close>

text \<open>
  C2. The engine takes a release of the target for the source release exactly when the
  release has a tag, the lookup by that tag on the target finds a release, and the name and
  the target commitish of the release found are those of the source release. In that case
  the release found is the one the loop goes on with, and the lookup is the only call made:
  no release is created.
\<close>

theorem release_equivalent_iff_tag_name_commitish:
  assumes "newGHRestClient env (GetString env ''TARGET_TOKEN'') [] = Return c"
    and "Repositories_GetReleaseByTag env c targetOrg repository (GetTagName (Some release)) (ext w) = (reply, h)"
    and "w1 = (if Release_TagName release = None then w
               else record_call (CallGetReleaseByTag targetOrg repository (GetTagName (Some release))) h w)"
  shows "\<exists>existing releaseExists.
           ReleaseExists env targetOrg repository (Some release) w = Return ((existing, releaseExists), w1)
         \<and> (releaseExists \<longleftrightarrow>
               Release_TagName release \<noteq> None
               \<and> (\<exists>found resp. reply = Reply found resp
                     \<and> GetName (Some found) = GetName (Some release)
                     \<and> GetTargetCommitish (Some found) = GetTargetCommitish (Some release)))
         \<and> (releaseExists \<longrightarrow>
               (\<exists>found resp. reply = Reply found resp \<and> existing = Some found)
               \<and> findOrCreate env targetOrg repository release vs w = Return ((Proceed existing, vs), w1)
               \<and> trace w1 = trace w @ [CallGetReleaseByTag targetOrg repository (GetTagName (Some release))])"
  using assms
  by (cases reply)
     (auto simp: ReleaseExists_def findOrCreate_def GetReleaseByTag_def record_call_def
           Let_def split: option.splits)

theorem release_equivalent_iff_tag_name_commitish_witness:
  "ReleaseExists host_env ''dst'' ''repo'' (Some release_v1) (start migrated_host) =
     Return ((Some target_v1, True),
             record_call (CallGetReleaseByTag ''dst'' ''repo'' ''v1.0'') migrated_host (start migrated_host))
   \<and> findOrCreate host_env ''dst'' ''repo'' release_v1 \<lparr>failed = 0, newLatestReleaseID = 0\<rparr> (start migrated_host) =
     Return ((Proceed (Some target_v1), \<lparr>failed = 0, newLatestReleaseID = 0\<rparr>),
             record_call (CallGetReleaseByTag ''dst'' ''repo'' ''v1.0'') migrated_host (start migrated_host))"
proof -
  let ?w1 = "record_call (CallGetReleaseByTag ''dst'' ''repo'' ''v1.0'') migrated_host (start migrated_host)"
  have tag: "GetTagName (Some release_v1) = ''v1.0''" "Release_TagName release_v1 \<noteq> None"
    by (simp_all add: GetTagName_def release_v1_def)
  have 1: "newGHRestClient host_env (GetString host_env ''TARGET_TOKEN'') [] = Return (Client ''t0ken'' [])"
    by (simp add: newGHRestClient_def config_simps) (simp add: host_env_def)
  have 2: "Repositories_GetReleaseByTag host_env (Client ''t0ken'' []) ''dst'' ''repo''
             (GetTagName (Some release_v1)) (ext (start migrated_host)) = (Reply target_v1 ok, migrated_host)"
    by (simp add: host_env_def host_GetReleaseByTag_def start_def migrated_host_def fresh_host_def
          tag target_v1_def)
  have 3: "?w1 = (if Release_TagName release_v1 = None then start migrated_host
                  else record_call (CallGetReleaseByTag ''dst'' ''repo'' (GetTagName (Some release_v1)))
                         migrated_host (start migrated_host))"
    by (simp add: tag)
  have 4: "GetName (Some target_v1) = GetName (Some release_v1)"
    "GetTargetCommitish (Some target_v1) = GetTargetCommitish (Some release_v1)"
    by (simp_all add: GetName_def GetTargetCommitish_def release_v1_def target_v1_def)
  show ?thesis
    using release_equivalent_iff_tag_name_commitish [OF 1 2 3, of "\<lparr>failed = 0, newLatestReleaseID = 0\<rparr>"] 4 tag
    by auto
qed

subsection \<open>Transferring the assets\<close>

lemma TrimSuffix_append [simp]: "TrimSuffix (s @ sfx) sfx = s"
  by (simp add: TrimSuffix_def suffix_def)

lemma host_env_simps [simp]:
  "viper host_env = config"
  "os_MkdirAll host_env = (\<lambda>d h. None)"
  "os_Create host_env = (\<lambda>f h. None)"
  "io_Copy host_env = (\<lambda>f h. None)"
  "file_Stat host_env = (\<lambda>f h. None)"
  "http_NewRequest host_env = (\<lambda>m u. None)"
  "http_Do host_env = host_Do"
  "NewRateLimitWaiterClient host_env = (\<lambda>t. None)"
  "WithEnterpriseURLs host_env = (\<lambda>b u. None)"
  "Repositories_ListReleases host_env = host_ListReleases"
  "Repositories_GetLatestRelease host_env = host_GetLatestRelease"
  "Repositories_GetReleaseByTag host_env = host_GetReleaseByTag"
  "Repositories_CreateRelease host_env = host_CreateRelease"
  "Repositories_EditRelease host_env = host_EditRelease"
  "provenance_body host_env = Release_Body"
  "mapped_body host_env = (\<lambda>b f. b)"
  by (simp_all add: host_env_def)

lemma config_tokens [simp]:
  "config ''SOURCE_TOKEN'' = Some ''s3cret''"
  "config ''TARGET_TOKEN'' = Some ''t0ken''"
  "config ''TARGET_ORGANIZATION'' = Some ''dst''"
  by (simp_all add: config_def)









subsection \<open>The calls of the engine\<close>

lemma Contains_already_exists_error [simp]:
  "Contains (already_exists_error n) ''already exists''"
  unfolding Contains_def sublist_def already_exists_error_def
  by (intro exI [of _ "''release ''"] exI [of _ "'': '' @ n"]) simp

lemma GetReleaseByTag_trace:
  "GetReleaseByTag env owner repository tagName w = Return (x, w')
     \<Longrightarrow> trace w' = trace w @ [CallGetReleaseByTag owner repository tagName]"
  by (auto simp: GetReleaseByTag_def Let_def record_call_def
        split: result.splits prod.splits gh_reply.splits option.splits if_splits)

lemma ReleaseExists_trace:
  "ReleaseExists env owner repository (Some release) w = Return (x, w')
     \<Longrightarrow> trace w' = trace w @ (if Release_TagName release = None then []
                                else [CallGetReleaseByTag owner repository (GetTagName (Some release))])"
  by (auto simp: ReleaseExists_def Let_def dest: GetReleaseByTag_trace
        split: result.splits prod.splits sum.splits if_splits)

lemma CreateRelease_trace:
  "CreateRelease env repository release w = Return (x, w')
     \<Longrightarrow> \<exists>org reply. trace w' = trace w @ [CallCreateRelease org repository release reply]
           \<and> (case reply of
                 Reply newRelease resp \<Rightarrow> x = Inr newRelease
               | Failure resp e \<Rightarrow>
                   x = Inl (if Contains e ''already_exists''
                            then already_exists_error (GetName (Some release)) else e))"
  by (fastforce simp: CreateRelease_def Let_def record_call_def
        split: result.splits prod.splits gh_reply.splits if_splits)

lemma SetLatestRelease_trace:
  "SetLatestRelease env owner repository releaseID w = Return (x, w')
     \<Longrightarrow> trace w' = trace w @ [CallEditRelease owner repository releaseID]"
  by (auto simp: SetLatestRelease_def Let_def record_call_def
        split: result.splits prod.splits gh_reply.splits)

lemma GetSourceRepositoryLatestRelease_trace:
  "GetSourceRepositoryLatestRelease env owner repository w = Return (x, w')
     \<Longrightarrow> trace w' = trace w @ [CallGetLatestRelease owner repository]"
  by (auto simp: GetSourceRepositoryLatestRelease_def Let_def record_call_def
        split: result.splits prod.splits gh_reply.splits option.splits if_splits)

lemma DownloadReleaseAssets_trace:
  "DownloadReleaseAssets env asset w = Return (x, w')
     \<Longrightarrow> \<exists>cs. trace w' = trace w @ cs \<and> (\<forall>c \<in> set cs. \<exists>req. c = CallHttp req)"
  by (auto simp: DownloadReleaseAssets_def DownloadFileFromURL_def Let_def record_call_def
        split: result.splits prod.splits option.splits http_reply.splits if_splits)

lemma UploadAssetViaURL_trace:
  "UploadAssetViaURL env uploadURL asset w = Return (x, w')
     \<Longrightarrow> \<exists>cs. trace w' = trace w @ cs \<and> (\<forall>c \<in> set cs. \<exists>req. c = CallHttp req)"
  by (auto simp: UploadAssetViaURL_def RemoveFile_def Let_def record_call_def
        split: result.splits prod.splits option.splits sum.splits http_reply.splits if_splits)

lemma assetsLoop_trace:
  "assetsLoop env newRelease assets w = Return w'
     \<Longrightarrow> \<exists>cs. trace w' = trace w @ cs \<and> (\<forall>c \<in> set cs. \<exists>req. c = CallHttp req)"
proof (induction assets arbitrary: w)
  case Nil
  then show ?case by simp
next
  case (Cons asset rest)
  show ?case
  proof (cases "AssetExists newRelease (Asset_GetName asset) (Asset_GetSize asset)")
    case True
    with Cons show ?thesis by simp
  next
    case False
    with Cons.prems obtain e w1 where
      d: "DownloadReleaseAssets env asset w = Return (e, w1)"
      by (auto split: result.splits)
    from DownloadReleaseAssets_trace [OF d] obtain cs1 where
      cs1: "trace w1 = trace w @ cs1" "\<forall>c \<in> set cs1. \<exists>req. c = CallHttp req" by blast
    show ?thesis
    proof (cases e)
      case (Some a)
      with Cons.prems False d have "assetsLoop env newRelease rest w1 = Return w'" by simp
      from Cons.IH [OF this] cs1 show ?thesis by auto
    next
      case None
      with Cons.prems False d obtain e2 w2 where
        u: "UploadAssetViaURL env (GetUploadURL newRelease) asset w1 = Return (e2, w2)"
        and r: "assetsLoop env newRelease rest w2 = Return w'"
        by (auto split: result.splits)
      from UploadAssetViaURL_trace [OF u] obtain cs2 where
        cs2: "trace w2 = trace w1 @ cs2" "\<forall>c \<in> set cs2. \<exists>req. c = CallHttp req" by blast
      from Cons.IH [OF r] cs1 cs2 show ?thesis by auto
    qed
  qed
qed


lemma findOrCreate_calls:
  assumes "findOrCreate env targetOrg repository release vs w = Return ((st, vs'), w')"
  shows "\<exists>cs. trace w' = trace w @ cs
           \<and> failed vs' = failed vs + length (filter failedCreate cs)
           \<and> newLatestReleaseID vs' = newLatestReleaseID vs
           \<and> (\<forall>c \<in> set cs. \<not> isEditRelease c)"
proof -
  from assms obtain existing releaseExists w1 where
    re: "ReleaseExists env targetOrg repository (Some release) w = Return ((existing, releaseExists), w1)"
    by (auto simp: findOrCreate_def split: result.splits)
  from ReleaseExists_trace [OF re] obtain cs1 where
    cs1: "trace w1 = trace w @ cs1" "filter failedCreate cs1 = []" "\<forall>c \<in> set cs1. \<not> isEditRelease c"
    by (cases "Release_TagName release") auto
  show ?thesis
  proof (cases releaseExists)
    case True
    with assms re cs1 show ?thesis by (auto simp: findOrCreate_def)
  next
    case False
    with assms re obtain x w2 where
      cr: "CreateRelease env repository release w1 = Return (x, w2)"
      by (auto simp: findOrCreate_def split: result.splits)
    from CreateRelease_trace [OF cr] obtain org reply where
      tr2: "trace w2 = trace w1 @ [CallCreateRelease org repository release reply]"
      and x: "case reply of Reply newRelease resp \<Rightarrow> x = Inr newRelease
              | Failure resp e \<Rightarrow> x = Inl (if Contains e ''already_exists''
                                            then already_exists_error (GetName (Some release)) else e)"
      by blast
    show ?thesis
    proof (cases reply)
      case (Reply newRelease resp)
      with assms re False cr x tr2 cs1 show ?thesis
        by (auto simp: findOrCreate_def)
    next
      case (Failure resp e)
      show ?thesis
      proof (cases "conflict e")
        case True
        with Failure x obtain e2 where e2: "x = Inl e2" "Contains e2 ''already exists''"
          by (auto simp: conflict_def)
        with assms re \<open>\<not> releaseExists\<close> cr obtain y where
          g: "GetReleaseByTag env targetOrg repository (GetTagName (Some release)) w2 = Return (y, w')"
          and vs: "vs' = vs"
          by (auto simp: findOrCreate_def split: result.splits sum.splits)
        from GetReleaseByTag_trace [OF g] tr2 cs1 True Failure vs show ?thesis
          by auto
      next
        case False
        with Failure x have e2: "x = Inl e" "\<not> Contains e ''already exists''"
          by (auto simp: conflict_def)
        with assms re \<open>\<not> releaseExists\<close> cr have "vs' = vs\<lparr>failed := failed vs + 1\<rparr>" "w' = w2"
          by (auto simp: findOrCreate_def)
        with tr2 cs1 False Failure show ?thesis by auto
      qed
    qed
  qed
qed

lemma loopBody_calls:
  assumes "loopBody env targetOrg repository latestID release0 vs w = Return (vs', w')"
  shows "\<exists>cs. trace w' = trace w @ cs
           \<and> failed vs' = failed vs + length (filter failedCreate cs)
           \<and> (\<forall>c \<in> set cs. \<not> isEditRelease c)"
proof -
  from assms obtain st vs1 w1 where
    f: "findOrCreate env targetOrg repository (rewriteBody env release0) vs w = Return ((st, vs1), w1)"
    by (auto simp: loopBody_def Let_def split: result.splits)
  from findOrCreate_calls [OF f] obtain cs1 where
    cs1: "trace w1 = trace w @ cs1" "failed vs1 = failed vs + length (filter failedCreate cs1)"
      "\<forall>c \<in> set cs1. \<not> isEditRelease c"
    by blast
  show ?thesis
  proof (cases st)
    case Continue
    with assms f cs1 show ?thesis by (auto simp: loopBody_def Let_def)
  next
    case (Proceed newRelease)
    with assms f have
      a: "assetsLoop env newRelease (Release_Assets (rewriteBody env release0)) w1 = Return w'"
      and v: "failed vs' = failed vs1"
      by (auto simp: loopBody_def Let_def split: result.splits if_splits)
    from assetsLoop_trace [OF a] obtain cs2 where
      cs2: "trace w' = trace w1 @ cs2" "\<forall>c \<in> set cs2. \<exists>req. c = CallHttp req" by blast
    then have "filter failedCreate cs2 = []" "\<forall>c \<in> set cs2. \<not> isEditRelease c"
      by (auto simp: filter_empty_conv)
    with cs1 cs2 v show ?thesis by auto
  qed
qed

lemma releasesLoop_calls:
  "releasesLoop env targetOrg repository latestID releases vs w = Return (vs', w')
     \<Longrightarrow> \<exists>cs. trace w' = trace w @ cs
           \<and> failed vs' = failed vs + length (filter failedCreate cs)
           \<and> (\<forall>c \<in> set cs. \<not> isEditRelease c)"
proof (induction releases arbitrary: vs w)
  case Nil
  then show ?case by simp
next
  case (Cons release rest)
  from Cons.prems obtain vs1 w1 where
    b: "loopBody env targetOrg repository latestID release vs w = Return (vs1, w1)"
    and r: "releasesLoop env targetOrg repository latestID rest vs1 w1 = Return (vs', w')"
    by (auto split: result.splits)
  from loopBody_calls [OF b] obtain cs1 where
    cs1: "trace w1 = trace w @ cs1" "failed vs1 = failed vs + length (filter failedCreate cs1)"
      "\<forall>c \<in> set cs1. \<not> isEditRelease c"
    by blast
  from Cons.IH [OF r] obtain cs2 where
    cs2: "trace w' = trace w1 @ cs2" "failed vs' = failed vs1 + length (filter failedCreate cs2)"
      "\<forall>c \<in> set cs2. \<not> isEditRelease c"
    by blast
  from cs1 cs2 show ?case by (intro exI [of _ "cs1 @ cs2"]) auto
qed

lemma ListReleases_loop_trace:
  assumes "ListReleases_loop env c owner repository page allReleases w = Some y"
  shows "\<exists>cs. trace (snd y) = trace w @ cs \<and> (\<forall>x \<in> set cs. \<exists>ow re p. x = CallListReleases ow re p)"
  using assms
proof (induction rule: ListReleases_loop.raw_induct [rotated 1, consumes 1, case_names step])
  case (step rec env c owner repository page allReleases w y)
  obtain reply h where o: "Repositories_ListReleases env c owner repository page (ext w) = (reply, h)"
    by (cases "Repositories_ListReleases env c owner repository page (ext w)") blast
  let ?w1 = "record_call (CallListReleases owner repository page) h w"
  show ?case
  proof (cases reply)
    case (Failure resp err)
    with step(2) o show ?thesis by (auto simp: record_call_def)
  next
    case (Reply rs resp)
    show ?thesis
    proof (cases "NextPage resp = 0")
      case True
      with step(2) o Reply show ?thesis by (auto simp: record_call_def)
    next
      case False
      with step(2) o Reply have "rec env c owner repository (NextPage resp) (allReleases @ rs) ?w1 = Some y"
        by simp
      from step(1) [OF this] obtain cs where
        "trace (snd y) = trace ?w1 @ cs" "\<forall>x \<in> set cs. \<exists>ow re p. x = CallListReleases ow re p"
        by blast
      then show ?thesis
        by (intro exI [of _ "CallListReleases owner repository page # cs"]) (auto simp: record_call_def)
    qed
  qed
qed


subsection \<open>Creating a release\<close>

lemma CreateRelease_reply:
  assumes "newGHRestClient env (GetString env ''TARGET_TOKEN'') [] = Return c"
    and "viper env ''TARGET_ORGANIZATION'' = Some org"
    and "Repositories_CreateRelease env c org repository release (ext w) = (reply, h)"
  shows "CreateRelease env repository release w =
           Return (case reply of
                     Reply newRelease resp \<Rightarrow> Inr newRelease
                   | Failure resp e \<Rightarrow>
                       Inl (if Contains e ''already_exists''
                            then already_exists_error (GetName (Some release)) else e),
                   record_call (CallCreateRelease org repository release reply) h w)"
  using assms by (cases reply) (simp_all add: CreateRelease_def Get_string_def Let_def)

lemma GetReleaseByTag_reply:
  assumes "newGHRestClient env (GetString env ''TARGET_TOKEN'') [] = Return c"
    and "Repositories_GetReleaseByTag env c owner repository tagName (ext w) = (reply, h)"
  shows "\<exists>r. GetReleaseByTag env owner repository tagName w =
           Return (r, record_call (CallGetReleaseByTag owner repository tagName) h w)
         \<and> (case reply of Reply found resp \<Rightarrow> r = Inr found | Failure resp e \<Rightarrow> \<exists>e'. r = Inl e')"
  using assms by (cases reply) (auto simp: GetReleaseByTag_def Let_def split: option.splits)

lemma findOrCreate_conflict:
  assumes client: "newGHRestClient env (GetString env ''TARGET_TOKEN'') [] = Return c"
    and org: "viper env ''TARGET_ORGANIZATION'' = Some org"
    and absent: "ReleaseExists env targetOrg repository (Some release) w = Return ((existing, False), w1)"
    and create: "Repositories_CreateRelease env c org repository release (ext w1) = (Failure resp e, h2)"
    and conflict: "conflict e"
    and refetch: "Repositories_GetReleaseByTag env c targetOrg repository (GetTagName (Some release)) h2 = (reply, h3)"
    and w3: "w3 = record_call (CallGetReleaseByTag targetOrg repository (GetTagName (Some release))) h3
                    (record_call (CallCreateRelease org repository release (Failure resp e)) h2 w1)"
  shows "findOrCreate env targetOrg repository release vs w =
           Return ((case reply of Reply found r \<Rightarrow> Proceed (Some found) | Failure r e' \<Rightarrow> Continue, vs), w3)"
proof -
  let ?w2 = "record_call (CallCreateRelease org repository release (Failure resp e)) h2 w1"
  obtain e2 where c: "CreateRelease env repository release w1 = Return (Inl e2, ?w2)"
    and e2: "Contains e2 ''already exists''"
    using CreateRelease_reply [OF client org create] conflict by (auto simp: conflict_def)
  have "ext ?w2 = h2" by (simp add: record_call_def)
  with refetch obtain r where
    g: "GetReleaseByTag env targetOrg repository (GetTagName (Some release)) ?w2 = Return (r, w3)"
    and r: "case reply of Reply found resp \<Rightarrow> r = Inr found | Failure resp e \<Rightarrow> \<exists>e'. r = Inl e'"
    using GetReleaseByTag_reply [OF client, of targetOrg repository "GetTagName (Some release)" ?w2 reply h3] w3
    by auto
  show ?thesis
    using absent c e2 g r by (cases reply) (auto simp: findOrCreate_def)
qed

lemma rewriteBody_host_env [simp]: "rewriteBody host_env r = r"
  by (simp add: rewriteBody_def AddSourceTimeStamps_def ModifyReleaseBody_def Let_def)

lemma newGHRestClient_host_env [simp]:
  "newGHRestClient host_env (GetString host_env ''TARGET_TOKEN'') [] = Return (Client ''t0ken'' [])"
  by (simp add: newGHRestClient_def config_simps)

lemma release_v1_getters [simp]:
  "GetTagName (Some release_v1) = ''v1.0''"
  "GetName (Some release_v1) = ''A''"
  "GetTargetCommitish (Some release_v1) = ''main''"
  "GetID (Some release_v1) = 7"
  "Release_TagName release_v1 = Some ''v1.0''"
  by (simp_all add: GetTagName_def GetName_def GetTargetCommitish_def GetID_def release_v1_def)


text \<open>
  C4. When the creation of a release fails with a conflict and the lookup by tag that
  follows answers with a release, that release is the one the loop goes on with: its
  assets are the ones the source assets are compared with, its upload URL receives them,
  and its id becomes the latest candidate when the source release is the latest one. The
  failure counter stays as it was.
\<close>

theorem conflict_refetches_without_failure:
  assumes client: "newGHRestClient env (GetString env ''TARGET_TOKEN'') [] = Return c"
    and org: "viper env ''TARGET_ORGANIZATION'' = Some org"
    and release: "release = rewriteBody env release0"
    and absent: "ReleaseExists env targetOrg repository (Some release) w = Return ((existing, False), w1)"
    and create: "Repositories_CreateRelease env c org repository release (ext w1) = (Failure resp e, h2)"
    and conflict: "conflict e"
    and refetch: "Repositories_GetReleaseByTag env c targetOrg repository (GetTagName (Some release)) h2
                    = (Reply found resp', h3)"
    and w3: "w3 = record_call (CallGetReleaseByTag targetOrg repository (GetTagName (Some release))) h3
                    (record_call (CallCreateRelease org repository release (Failure resp e)) h2 w1)"
  shows "findOrCreate env targetOrg repository release vs w = Return ((Proceed (Some found), vs), w3)
       \<and> loopBody env targetOrg repository latestID release0 vs w =
           (case assetsLoop env (Some found) (Release_Assets release) w3 of
              Panic \<Rightarrow> Panic
            | Return w4 \<Rightarrow>
                Return (if latestID \<noteq> 0 \<and> GetID (Some release) = latestID
                        then vs\<lparr>newLatestReleaseID := GetID (Some found)\<rparr> else vs, w4))
       \<and> (\<forall>vs' w'. loopBody env targetOrg repository latestID release0 vs w = Return (vs', w')
             \<longrightarrow> failed vs' = failed vs)"
proof -
  have f: "findOrCreate env targetOrg repository release vs w = Return ((Proceed (Some found), vs), w3)"
    using findOrCreate_conflict [OF client org absent create conflict refetch w3] by simp
  then show ?thesis
    using release by (auto simp: loopBody_def Let_def split: result.splits)
qed

theorem conflict_refetches_without_failure_witness:
  "findOrCreate host_env ''dst'' ''repo'' release_v1 no_vars (start renamed_host) =
     Return ((Proceed (Some target_v1_renamed), no_vars),
             record_call (CallGetReleaseByTag ''dst'' ''repo'' ''v1.0'') renamed_host
               (record_call (CallCreateRelease ''dst'' ''repo'' release_v1
                               (Failure (Some (status 422)) already_exists_422)) renamed_host
                  (record_call (CallGetReleaseByTag ''dst'' ''repo'' ''v1.0'') renamed_host
                     (start renamed_host))))
   \<and> loopBody host_env ''dst'' ''repo'' 7 release_v1 no_vars (start renamed_host) =
       (case assetsLoop host_env (Some target_v1_renamed) (Release_Assets release_v1)
               (record_call (CallGetReleaseByTag ''dst'' ''repo'' ''v1.0'') renamed_host
                  (record_call (CallCreateRelease ''dst'' ''repo'' release_v1
                                  (Failure (Some (status 422)) already_exists_422)) renamed_host
                     (record_call (CallGetReleaseByTag ''dst'' ''repo'' ''v1.0'') renamed_host
                        (start renamed_host)))) of
          Panic \<Rightarrow> Panic
        | Return w4 \<Rightarrow> Return (no_vars\<lparr>newLatestReleaseID := 1\<rparr>, w4))"
proof -
  let ?w1 = "record_call (CallGetReleaseByTag ''dst'' ''repo'' ''v1.0'') renamed_host (start renamed_host)"
  have find: "find (\<lambda>r. Release_TagName r = Some ''v1.0'') (target_releases renamed_host) = Some target_v1_renamed"
    by (simp add: renamed_host_def target_v1_renamed_def target_v1_def)
  have lookup: "host_GetReleaseByTag c ''dst'' ''repo'' ''v1.0'' renamed_host = (Reply target_v1_renamed ok, renamed_host)" for c
    by (simp add: host_GetReleaseByTag_def find)
  have name: "GetName (Some target_v1_renamed) = ''B''"
    by (simp add: GetName_def target_v1_renamed_def)
  have absent: "ReleaseExists host_env ''dst'' ''repo'' (Some release_v1) (start renamed_host)
                  = Return ((Some target_v1_renamed, False), ?w1)"
    by (simp add: ReleaseExists_def GetReleaseByTag_def lookup start_def name)
  have create: "Repositories_CreateRelease host_env (Client ''t0ken'' []) ''dst'' ''repo'' release_v1 (ext ?w1)
                  = (Failure (Some (status 422)) already_exists_422, renamed_host)"
    by (simp add: host_CreateRelease_def find record_call_def)
  have conflict: "conflict already_exists_422"
    unfolding already_exists_422_def conflict_def Contains_def by code_simp
  have refetch: "Repositories_GetReleaseByTag host_env (Client ''t0ken'' []) ''dst'' ''repo''
                   (GetTagName (Some release_v1)) renamed_host = (Reply target_v1_renamed ok, renamed_host)"
    by (simp add: lookup)
  have target_id: "GetID (Some target_v1_renamed) = 1"
    by (simp add: GetID_def target_v1_renamed_def target_v1_def)
  have org: "viper host_env ''TARGET_ORGANIZATION'' = Some ''dst''"
    by simp
  have release: "release_v1 = rewriteBody host_env release_v1"
    by simp
  show ?thesis
    using conflict_refetches_without_failure
      [OF newGHRestClient_host_env org release absent create conflict refetch refl,
       where vs = no_vars and latestID = 7]
    by (simp add: target_id cong: result.case_cong)
qed

text \<open>
  C10. When the creation of a release fails with a conflict and the lookup by tag that
  follows fails too, the loop goes on to the next release and leaves the failure counter as
  it was. The count of failures that a run returns can therefore be smaller than the number
  of source releases that were neither created nor found on the target: in the example run
  the one source release is neither, and the run returns one release and no failure.
\<close>

theorem conflict_refetch_failure_not_counted:
  assumes client: "newGHRestClient env (GetString env ''TARGET_TOKEN'') [] = Return c"
    and org: "viper env ''TARGET_ORGANIZATION'' = Some org"
    and release: "release = rewriteBody env release0"
    and absent: "ReleaseExists env targetOrg repository (Some release) w = Return ((existing, False), w1)"
    and create: "Repositories_CreateRelease env c org repository release (ext w1) = (Failure resp e, h2)"
    and conflict: "conflict e"
    and refetch: "Repositories_GetReleaseByTag env c targetOrg repository (GetTagName (Some release)) h2
                    = (Failure resp' e', h3)"
    and w3: "w3 = record_call (CallGetReleaseByTag targetOrg repository (GetTagName (Some release))) h3
                    (record_call (CallCreateRelease org repository release (Failure resp e)) h2 w1)"
  shows "loopBody env targetOrg repository latestID release0 vs w = Return (vs, w3)
       \<and> outcome (migrateRepositoryReleases conflicting_env ''repo'' (start fresh_host)) =
           Some (Return ((1, 0, None),
             [CallListReleases ''src'' ''repo'' 0, CallGetLatestRelease ''src'' ''repo'',
              CallGetReleaseByTag ''dst'' ''repo'' ''v1.0'',
              CallCreateRelease ''dst'' ''repo'' release_v1 (Failure (Some (status 422)) already_exists_422),
              CallGetReleaseByTag ''dst'' ''repo'' ''v1.0''],
             []))"
proof -
  have f: "findOrCreate env targetOrg repository release vs w = Return ((Continue, vs), w3)"
    using findOrCreate_conflict [OF client org absent create conflict refetch w3] by simp
  then have "loopBody env targetOrg repository latestID release0 vs w = Return (vs, w3)"
    using release by (auto simp: loopBody_def Let_def split: result.splits)
  moreover have "outcome (migrateRepositoryReleases conflicting_env ''repo'' (start fresh_host)) =
           Some (Return ((1, 0, None),
             [CallListReleases ''src'' ''repo'' 0, CallGetLatestRelease ''src'' ''repo'',
              CallGetReleaseByTag ''dst'' ''repo'' ''v1.0'',
              CallCreateRelease ''dst'' ''repo'' release_v1 (Failure (Some (status 422)) already_exists_422),
              CallGetReleaseByTag ''dst'' ''repo'' ''v1.0''],
             []))"
    by code_simp
  ultimately show ?thesis by blast
qed

theorem conflict_refetch_failure_not_counted_witness:
  "loopBody conflicting_env ''dst'' ''repo'' 7 release_v1 no_vars (start fresh_host) =
     Return (no_vars,
             record_call (CallGetReleaseByTag ''dst'' ''repo'' ''v1.0'') fresh_host
               (record_call (CallCreateRelease ''dst'' ''repo'' release_v1
                               (Failure (Some (status 422)) already_exists_422)) fresh_host
                  (record_call (CallGetReleaseByTag ''dst'' ''repo'' ''v1.0'') fresh_host
                     (start fresh_host))))"
proof -
  let ?w1 = "record_call (CallGetReleaseByTag ''dst'' ''repo'' ''v1.0'') fresh_host (start fresh_host)"
  have sel: "viper conflicting_env = config"
    "NewRateLimitWaiterClient conflicting_env = (\<lambda>t. None)"
    "provenance_body conflicting_env = Release_Body" "mapped_body conflicting_env = (\<lambda>b f. b)"
    "Repositories_GetReleaseByTag conflicting_env =
       (\<lambda>c owner repository tag h. (Failure (Some (status 502)) ''502 Bad Gateway'', h))"
    "Repositories_CreateRelease conflicting_env =
       (\<lambda>c org repository release h. (Failure (Some (status 422)) already_exists_422, h))"
    by (simp_all add: conflicting_env_def)
  have client: "newGHRestClient conflicting_env (GetString conflicting_env ''TARGET_TOKEN'') []
                  = Return (Client ''t0ken'' [])"
    by (simp add: newGHRestClient_def GetString_def sel)
  have org: "viper conflicting_env ''TARGET_ORGANIZATION'' = Some ''dst''"
    by (simp add: sel)
  have release: "release_v1 = rewriteBody conflicting_env release_v1"
    by (simp add: rewriteBody_def AddSourceTimeStamps_def ModifyReleaseBody_def Let_def sel)
  have absent: "ReleaseExists conflicting_env ''dst'' ''repo'' (Some release_v1) (start fresh_host)
                  = Return ((None, False), ?w1)"
    by (simp add: ReleaseExists_def GetReleaseByTag_def client sel start_def status_def)
  have create: "Repositories_CreateRelease conflicting_env (Client ''t0ken'' []) ''dst'' ''repo'' release_v1 (ext ?w1)
                  = (Failure (Some (status 422)) already_exists_422, fresh_host)"
    by (simp add: sel record_call_def start_def)
  have conflict: "conflict already_exists_422"
    unfolding already_exists_422_def conflict_def Contains_def by code_simp
  have refetch: "Repositories_GetReleaseByTag conflicting_env (Client ''t0ken'' []) ''dst'' ''repo''
                   (GetTagName (Some release_v1)) fresh_host
                   = (Failure (Some (status 502)) ''502 Bad Gateway'', fresh_host)"
    by (simp add: sel)
  show ?thesis
    using conflict_refetch_failure_not_counted
      [OF client org release absent create conflict refetch refl, where vs = no_vars and latestID = 7]
    by simp
qed


subsection \<open>Counting the failures\<close>





subsection \<open>The scratch file\<close>

lemma upload_request_method [simp]: "req_method (upload_request u a m t n) = ''POST''"
  by (simp add: upload_request_def)

lemma UploadAssetViaURL_success:
  assumes "UploadAssetViaURL env uploadURL asset w = Return (None, w')"
  shows "files w' (tmpDir @ ''/'' @ Asset_GetName asset) = None
       \<and> (\<exists>req h m. http_Do env req (ext w) = (HttpResponse 201 m, h) \<and> req_method req = ''POST'')"
proof -
  from assms have "files w' (tmpDir @ ''/'' @ Asset_GetName asset) = None"
    by (auto simp: UploadAssetViaURL_def RemoveFile_def OpenFile_def Let_def record_call_def
          split: sum.splits option.splits result.splits prod.splits http_reply.splits if_splits)
  moreover from assms obtain u m t n h k where
    "http_Do env (upload_request u asset m t n) (ext w) = (HttpResponse 201 k, h)"
    by (auto simp: UploadAssetViaURL_def RemoveFile_def OpenFile_def Let_def
          split: sum.splits option.splits result.splits prod.splits http_reply.splits if_splits)
  then have "\<exists>req h m. http_Do env req (ext w) = (HttpResponse 201 m, h) \<and> req_method req = ''POST''"
    using upload_request_method by blast
  ultimately show ?thesis by blast
qed

lemma UploadAssetViaURL_error:
  assumes "UploadAssetViaURL env uploadURL asset w = Return (Some e, w')"
  shows "files w' = files w"
  using assms
  by (auto simp: UploadAssetViaURL_def RemoveFile_def OpenFile_def Let_def record_call_def
        split: sum.splits option.splits result.splits prod.splits http_reply.splits if_splits)

lemma UploadAssetViaURL_reply:
  assumes "files w (tmpDir @ ''/'' @ Asset_GetName asset) = Some n"
    and "file_Stat env (tmpDir @ ''/'' @ Asset_GetName asset) (ext w) = None"
    and "Asset_ContentType asset = Some contentType"
    and "http_NewRequest env ''POST'' (TrimSuffix uploadURL ''{?name,label}'') = None"
    and "viper env ''TARGET_TOKEN'' = Some token"
    and "http_Do env (upload_request (TrimSuffix uploadURL ''{?name,label}'') asset
                        (mediaTypeOf env asset (tmpDir @ ''/'' @ Asset_GetName asset) contentType) token n) (ext w)
           = (reply, h)"
  shows "\<exists>e w'. UploadAssetViaURL env uploadURL asset w = Return (e, w')
           \<and> (e = None \<longleftrightarrow> (\<exists>m. reply = HttpResponse 201 m))"
  using assms
  by (cases reply)
     (auto simp: UploadAssetViaURL_def OpenFile_def Get_string_def Let_def record_call_def RemoveFile_def)

lemma DownloadReleaseAssets_file:
  assumes "DownloadReleaseAssets env asset w = Return (None, w1)"
  shows "files w1 (tmpDir @ ''/'' @ Asset_GetName asset) \<noteq> None"
  using assms
  by (auto simp: DownloadReleaseAssets_def DownloadFileFromURL_def Let_def record_call_def
        split: result.splits option.splits prod.splits http_reply.splits if_splits)

text \<open>
  C7. A download that succeeds leaves the scratch file \<^verbatim>\<open>tmp/<name>\<close> of the asset in
  place. When \<^verbatim>\<open>UploadAssetViaURL\<close> returns no error the scratch file is gone, and the host
  has answered the upload with 201. When it returns an error the files are what they were,
  so the scratch file is still there. Once the request has reached the host, no error is
  returned exactly when the host answers 201: a transport error and any other status give
  an error to the caller.
\<close>

theorem scratch_file_removed_after_upload_only:
  assumes "fileName = tmpDir @ ''/'' @ Asset_GetName asset"
  shows "(\<forall>w0 w1. DownloadReleaseAssets env asset w0 = Return (None, w1) \<longrightarrow> files w1 fileName \<noteq> None)
       \<and> (\<forall>w'. UploadAssetViaURL env uploadURL asset w = Return (None, w') \<longrightarrow>
              files w' fileName = None
              \<and> (\<exists>req h m. http_Do env req (ext w) = (HttpResponse 201 m, h) \<and> req_method req = ''POST''))
       \<and> (\<forall>e w'. UploadAssetViaURL env uploadURL asset w = Return (Some e, w') \<longrightarrow> files w' = files w)
       \<and> (\<forall>n contentType token reply h.
              files w fileName = Some n
              \<and> file_Stat env fileName (ext w) = None
              \<and> Asset_ContentType asset = Some contentType
              \<and> http_NewRequest env ''POST'' (TrimSuffix uploadURL ''{?name,label}'') = None
              \<and> viper env ''TARGET_TOKEN'' = Some token
              \<and> http_Do env (upload_request (TrimSuffix uploadURL ''{?name,label}'') asset
                                (mediaTypeOf env asset fileName contentType) token n) (ext w) = (reply, h)
              \<longrightarrow> (\<exists>e w'. UploadAssetViaURL env uploadURL asset w = Return (e, w')
                     \<and> (e = None \<longleftrightarrow> (\<exists>m. reply = HttpResponse 201 m))))"
proof (intro conjI allI impI)
  fix w0 w1
  assume "DownloadReleaseAssets env asset w0 = Return (None, w1)"
  then show "files w1 fileName \<noteq> None"
    using DownloadReleaseAssets_file assms by simp
next
  fix w'
  assume u: "UploadAssetViaURL env uploadURL asset w = Return (None, w')"
  from UploadAssetViaURL_success [OF u] show "files w' fileName = None"
    using assms by simp
  from UploadAssetViaURL_success [OF u]
  show "\<exists>req h m. http_Do env req (ext w) = (HttpResponse 201 m, h) \<and> req_method req = ''POST''"
    by simp
next
  fix e w'
  assume "UploadAssetViaURL env uploadURL asset w = Return (Some e, w')"
  then show "files w' = files w" by (rule UploadAssetViaURL_error)
next
  fix n contentType token reply h
  assume "files w fileName = Some n
              \<and> file_Stat env fileName (ext w) = None
              \<and> Asset_ContentType asset = Some contentType
              \<and> http_NewRequest env ''POST'' (TrimSuffix uploadURL ''{?name,label}'') = None
              \<and> viper env ''TARGET_TOKEN'' = Some token
              \<and> http_Do env (upload_request (TrimSuffix uploadURL ''{?name,label}'') asset
                                (mediaTypeOf env asset fileName contentType) token n) (ext w) = (reply, h)"
  then show "\<exists>e w'. UploadAssetViaURL env uploadURL asset w = Return (e, w')
                     \<and> (e = None \<longleftrightarrow> (\<exists>m. reply = HttpResponse 201 m))"
    using UploadAssetViaURL_reply [of w asset n env contentType uploadURL token reply h] assms
    by simp
qed


lemma build_zip_getters [simp]:
  "Asset_GetName build_zip = ''build.zip''"
  "Asset_GetSize build_zip = 1024"
  "Asset_GetLabel build_zip = []"
  "Asset_GetBrowserDownloadURL build_zip = ''https://src.example/build.zip''"
  "Asset_ContentType build_zip = Some ''application/zip''"
  "mediaTypeOf env build_zip f ''application/zip'' = ''application/zip''"
  by (simp_all add: Asset_GetName_def Asset_GetSize_def Asset_GetLabel_def Asset_GetBrowserDownloadURL_def
        mediaTypeOf_def Asset_GetContentType_def build_zip_def)

lemma upload_url_target_v1 [simp]:
  "TrimSuffix (GetUploadURL (Some target_v1)) ''{?name,label}'' = ''https://uploads.example/v1.0/assets''"
  "TrimSuffix (GetUploadURL (Some target_v1_renamed)) ''{?name,label}'' = ''https://uploads.example/v1.0/assets''"
proof -
  have "GetUploadURL (Some target_v1) = ''https://uploads.example/v1.0/assets'' @ ''{?name,label}''"
    "GetUploadURL (Some target_v1_renamed) = ''https://uploads.example/v1.0/assets'' @ ''{?name,label}''"
    by (simp_all add: GetUploadURL_def target_v1_def target_v1_renamed_def)
  then show "TrimSuffix (GetUploadURL (Some target_v1)) ''{?name,label}'' = ''https://uploads.example/v1.0/assets''"
    "TrimSuffix (GetUploadURL (Some target_v1_renamed)) ''{?name,label}'' = ''https://uploads.example/v1.0/assets''"
    by (simp_all only: TrimSuffix_append)
qed

theorem scratch_file_removed_after_upload_only_witness:
  "(case UploadAssetViaURL host_env (GetUploadURL (Some target_v1_renamed)) build_zip (downloaded renamed_host) of
      Panic \<Rightarrow> None
    | Return (e, w') \<Rightarrow> Some (e = None, files w' ''tmp/build.zip'')) = Some (True, None)
   \<and> (case UploadAssetViaURL host_env (GetUploadURL (Some target_v1)) build_zip (downloaded migrated_host) of
      Panic \<Rightarrow> None
    | Return (e, w') \<Rightarrow> Some (e = None, files w' ''tmp/build.zip'')) = Some (False, Some 1024)"
proof -
  let ?req = "upload_request ''https://uploads.example/v1.0/assets'' build_zip ''application/zip'' ''t0ken'' 1024"
  have name: "''tmp/build.zip'' = tmpDir @ ''/'' @ Asset_GetName build_zip"
    by (simp add: tmpDir_def)
  have scratch: "files (downloaded h) ''tmp/build.zip'' = Some 1024" "ext (downloaded h) = h" for h
    by (simp_all add: downloaded_def)
  have created: "\<exists>h. host_Do ?req renamed_host = (HttpResponse 201 0, h)"
    by (simp add: host_Do_def upload_request_def renamed_host_def uploaded_asset_def
          GetUploadURL_def target_v1_renamed_def target_v1_def upload_suffix_def TrimSuffix_def
          suffix_def Asset_GetName_def)
  have refused: "host_Do ?req migrated_host = (HttpResponse 422 0, migrated_host)"
    by (simp add: host_Do_def upload_request_def migrated_host_def uploaded_asset_def
          GetUploadURL_def target_v1_def upload_suffix_def TrimSuffix_def
          suffix_def Asset_GetName_def build_zip_def)
  from created obtain h1 where created': "host_Do ?req renamed_host = (HttpResponse 201 0, h1)" ..
  note ok = scratch_file_removed_after_upload_only
    [OF name, where env = host_env and w = "downloaded renamed_host"
       and uploadURL = "GetUploadURL (Some target_v1_renamed)"]
  note bad = scratch_file_removed_after_upload_only
    [OF name, where env = host_env and w = "downloaded migrated_host"
       and uploadURL = "GetUploadURL (Some target_v1)"]
  have 1: "\<exists>e w'. UploadAssetViaURL host_env (GetUploadURL (Some target_v1_renamed)) build_zip
                     (downloaded renamed_host) = Return (e, w') \<and> e = None"
    using ok created' scratch by (simp del: fun_upd_apply; blast?)
  have 2: "\<exists>e w'. UploadAssetViaURL host_env (GetUploadURL (Some target_v1)) build_zip
                     (downloaded migrated_host) = Return (e, w') \<and> e \<noteq> None"
    using bad refused scratch by (simp del: fun_upd_apply; blast?)
  from 1 ok have a: "(case UploadAssetViaURL host_env (GetUploadURL (Some target_v1_renamed)) build_zip
                        (downloaded renamed_host) of
      Panic \<Rightarrow> None | Return (e, w') \<Rightarrow> Some (e = None, files w' ''tmp/build.zip'')) = Some (True, None)"
    by auto
  from 2 bad scratch have b: "(case UploadAssetViaURL host_env (GetUploadURL (Some target_v1)) build_zip
                        (downloaded migrated_host) of
      Panic \<Rightarrow> None | Return (e, w') \<Rightarrow> Some (e = None, files w' ''tmp/build.zip'')) = Some (False, Some 1024)"
    by auto
  from a b show ?thesis by blast
qed

subsection \<open>The latest release\<close>

lemma GetID_rewriteBody [simp]: "GetID (Some (rewriteBody env r)) = GetID (Some r)"
  by (simp add: rewriteBody_def AddSourceTimeStamps_def GetID_def Let_def)

lemma releasesLoop_append:
  "releasesLoop env targetOrg repository latestID (xs @ ys) vs w =
     (case releasesLoop env targetOrg repository latestID xs vs w of
        Panic \<Rightarrow> Panic
      | Return (vs1, w1) \<Rightarrow> releasesLoop env targetOrg repository latestID ys vs1 w1)"
  by (induction xs arbitrary: vs w) (auto split: result.splits)

lemma loopBody_candidate:
  assumes "loopBody env targetOrg repository latestID release0 vs w = Return (vs', w')"
  shows "\<exists>st vs1 w1.
           findOrCreate env targetOrg repository (rewriteBody env release0) vs w = Return ((st, vs1), w1)
         \<and> newLatestReleaseID vs' =
             (case st of
                Continue \<Rightarrow> newLatestReleaseID vs
              | Proceed t \<Rightarrow>
                  if latestID \<noteq> 0 \<and> GetID (Some release0) = latestID then GetID t
                  else newLatestReleaseID vs)"
proof -
  from assms obtain st vs1 w1 where
    f: "findOrCreate env targetOrg repository (rewriteBody env release0) vs w = Return ((st, vs1), w1)"
    by (auto simp: loopBody_def Let_def split: result.splits)
  from findOrCreate_calls [OF f] have "newLatestReleaseID vs1 = newLatestReleaseID vs" by blast
  with assms f show ?thesis
    by (cases st) (auto simp: loopBody_def Let_def split: result.splits if_splits)
qed

lemma releasesLoop_candidate_unchanged:
  "releasesLoop env targetOrg repository latestID releases vs w = Return (vs', w')
     \<Longrightarrow> latestID = 0 \<or> (\<forall>r \<in> set releases. GetID (Some r) \<noteq> latestID)
     \<Longrightarrow> newLatestReleaseID vs' = newLatestReleaseID vs"
proof (induction releases arbitrary: vs w)
  case Nil
  then show ?case by simp
next
  case (Cons release rest)
  from Cons.prems(1) obtain vs1 w1 where
    b: "loopBody env targetOrg repository latestID release vs w = Return (vs1, w1)"
    and r: "releasesLoop env targetOrg repository latestID rest vs1 w1 = Return (vs', w')"
    by (auto split: result.splits)
  from loopBody_candidate [OF b] obtain st where
    "newLatestReleaseID vs1 =
       (case st of Continue \<Rightarrow> newLatestReleaseID vs
        | Proceed t \<Rightarrow> if latestID \<noteq> 0 \<and> GetID (Some release) = latestID then GetID t
                        else newLatestReleaseID vs)"
    by blast
  with Cons.prems(2) have "newLatestReleaseID vs1 = newLatestReleaseID vs"
    by (cases st) auto
  moreover from Cons.IH [OF r] Cons.prems(2) have "newLatestReleaseID vs' = newLatestReleaseID vs1"
    by auto
  ultimately show ?case by simp
qed

lemma releasesLoop_candidate_origin:
  "releasesLoop env targetOrg repository latestID releases vs w = Return (vs', w')
     \<Longrightarrow> newLatestReleaseID vs' = newLatestReleaseID vs
       \<or> (latestID \<noteq> 0
          \<and> (\<exists>pre release0 post vsA wA t vsB wB.
                 releases = pre @ release0 # post
               \<and> releasesLoop env targetOrg repository latestID pre vs w = Return (vsA, wA)
               \<and> findOrCreate env targetOrg repository (rewriteBody env release0) vsA wA
                    = Return ((Proceed t, vsB), wB)
               \<and> GetID (Some release0) = latestID
               \<and> newLatestReleaseID vs' = GetID t))"
proof (induction releases arbitrary: vs' w' rule: rev_induct)
  case Nil
  then show ?case by simp
next
  case (snoc release0 pre)
  from snoc.prems obtain vsA wA where
    p: "releasesLoop env targetOrg repository latestID pre vs w = Return (vsA, wA)"
    and b: "loopBody env targetOrg repository latestID release0 vsA wA = Return (vs', w')"
    by (auto simp: releasesLoop_append split: result.splits)
  from loopBody_candidate [OF b] obtain st vsB wB where
    f: "findOrCreate env targetOrg repository (rewriteBody env release0) vsA wA = Return ((st, vsB), wB)"
    and c: "newLatestReleaseID vs' =
             (case st of Continue \<Rightarrow> newLatestReleaseID vsA
              | Proceed t \<Rightarrow> if latestID \<noteq> 0 \<and> GetID (Some release0) = latestID then GetID t
                              else newLatestReleaseID vsA)"
    by blast
  show ?case
  proof (cases "\<exists>t. st = Proceed t \<and> latestID \<noteq> 0 \<and> GetID (Some release0) = latestID")
    case True
    then obtain t where t: "st = Proceed t" "latestID \<noteq> 0" "GetID (Some release0) = latestID" by blast
    with c have "newLatestReleaseID vs' = GetID t" by simp
    with p f t have "\<exists>pre' release0' post vsA wA t vsB wB.
                 pre @ [release0] = pre' @ release0' # post
               \<and> releasesLoop env targetOrg repository latestID pre' vs w = Return (vsA, wA)
               \<and> findOrCreate env targetOrg repository (rewriteBody env release0') vsA wA
                    = Return ((Proceed t, vsB), wB)
               \<and> GetID (Some release0') = latestID
               \<and> newLatestReleaseID vs' = GetID t"
      by (intro exI [of _ pre] exI [of _ release0] exI [of _ "[]"] exI [of _ vsA] exI [of _ wA]
            exI [of _ t] exI [of _ vsB] exI [of _ wB]) simp
    with t show ?thesis by blast
  next
    case False
    with c have same: "newLatestReleaseID vs' = newLatestReleaseID vsA"
      by (cases st) auto
    from snoc.IH [OF p] show ?thesis
    proof
      assume "newLatestReleaseID vsA = newLatestReleaseID vs"
      with same show ?thesis by simp
    next
      assume "latestID \<noteq> 0
          \<and> (\<exists>pre' release0' post vsA' wA' t vsB wB.
                 pre = pre' @ release0' # post
               \<and> releasesLoop env targetOrg repository latestID pre' vs w = Return (vsA', wA')
               \<and> findOrCreate env targetOrg repository (rewriteBody env release0') vsA' wA'
                    = Return ((Proceed t, vsB), wB)
               \<and> GetID (Some release0') = latestID
               \<and> newLatestReleaseID vsA = GetID t)"
      then obtain pre' release0' post vsA' wA' t vsB' wB' where
        "latestID \<noteq> 0" "pre = pre' @ release0' # post"
        "releasesLoop env targetOrg repository latestID pre' vs w = Return (vsA', wA')"
        "findOrCreate env targetOrg repository (rewriteBody env release0') vsA' wA'
                    = Return ((Proceed t, vsB'), wB')"
        "GetID (Some release0') = latestID" "newLatestReleaseID vsA = GetID t"
        by blast
      with same have "latestID \<noteq> 0
          \<and> (\<exists>pre'' release0'' post' vsA wA t vsB wB.
                 pre @ [release0] = pre'' @ release0'' # post'
               \<and> releasesLoop env targetOrg repository latestID pre'' vs w = Return (vsA, wA)
               \<and> findOrCreate env targetOrg repository (rewriteBody env release0'') vsA wA
                    = Return ((Proceed t, vsB), wB)
               \<and> GetID (Some release0'') = latestID
               \<and> newLatestReleaseID vs' = GetID t)"
        by (intro conjI exI [of _ pre'] exI [of _ release0'] exI [of _ "post @ [release0]"]
              exI [of _ vsA'] exI [of _ wA'] exI [of _ t] exI [of _ vsB'] exI [of _ wB']) simp_all
      then show ?thesis by blast
    qed
  qed
qed

lemma releasesLoop_candidate_last:
  assumes loop: "releasesLoop env targetOrg repository latestID (pre @ release0 # post) vs w = Return (vs', w')"
    and pre: "releasesLoop env targetOrg repository latestID pre vs w = Return (vsA, wA)"
    and found: "findOrCreate env targetOrg repository (rewriteBody env release0) vsA wA
                  = Return ((Proceed t, vsB), wB)"
    and latest: "latestID \<noteq> 0" "GetID (Some release0) = latestID"
    and post: "\<forall>r \<in> set post. GetID (Some r) \<noteq> latestID"
  shows "newLatestReleaseID vs' = GetID t"
proof -
  from loop pre obtain vsC wC where
    b: "loopBody env targetOrg repository latestID release0 vsA wA = Return (vsC, wC)"
    and r: "releasesLoop env targetOrg repository latestID post vsC wC = Return (vs', w')"
    by (auto simp: releasesLoop_append split: result.splits)
  from loopBody_candidate [OF b] found latest have "newLatestReleaseID vsC = GetID t"
    by auto
  with releasesLoop_candidate_unchanged [OF r] post show ?thesis by simp
qed


lemma map_outcome_Return:
  assumes "map_option (map_result f) r = Some (Return y)"
  obtains x where "r = Some (Return x)" "f x = y"
proof (cases r)
  case None
  with assms show ?thesis by simp
next
  case (Some a)
  with assms that show ?thesis by (cases a) auto
qed

text \<open>
  C6. In a run over one repository that returns, the edit calls issued are one call for
  the latest candidate of the loop when that candidate is not zero, and none otherwise; so
  there is at most one. When the fetch of the latest release of the source failed there is
  none. A candidate that is not zero is the id of the target release that the loop found or
  created for a source release whose id is the captured latest id; and when such a source
  release had its target release found or created, and no later release of the listing has
  that id, the candidate is the id of that target release and the edit call is for it.
  Zero is the value the program keeps for an id that is not there.
\<close>

theorem at_most_one_edit_latest:
  assumes run: "migrateRepositoryReleases env repository0 w = Some (Return (res, w'))"
    and targetOrg: "targetOrg = GetString env ''TARGET_ORGANIZATION''"
  shows "\<exists>owner repository releases w1 latest w2 vs w3 cs.
           splitRepository env repository0 = Return (owner, repository)
         \<and> GetSourceRepositoryReleases env owner repository w = Some (Return ((releases, None), w1))
         \<and> GetSourceRepositoryLatestRelease env owner repository w1 = Return (latest, w2)
         \<and> releasesLoop env targetOrg repository (latestIDof latest) releases
              \<lparr>failed = 0, newLatestReleaseID = 0\<rparr> w2 = Return (vs, w3)
         \<and> trace w' = trace w @ cs
         \<and> filter isEditRelease cs =
             (if newLatestReleaseID vs \<noteq> 0
              then [CallEditRelease targetOrg repository (newLatestReleaseID vs)] else [])
         \<and> length (filter isEditRelease cs) \<le> 1
         \<and> ((\<exists>e. latest = Inl e) \<longrightarrow> filter isEditRelease cs = [])
         \<and> (newLatestReleaseID vs \<noteq> 0 \<longrightarrow>
               latestIDof latest \<noteq> 0
               \<and> (\<exists>pre release0 post vsA wA t vsB wB.
                      releases = pre @ release0 # post
                    \<and> releasesLoop env targetOrg repository (latestIDof latest) pre
                         \<lparr>failed = 0, newLatestReleaseID = 0\<rparr> w2 = Return (vsA, wA)
                    \<and> findOrCreate env targetOrg repository (rewriteBody env release0) vsA wA
                         = Return ((Proceed t, vsB), wB)
                    \<and> GetID (Some release0) = latestIDof latest
                    \<and> newLatestReleaseID vs = GetID t))
         \<and> (\<forall>pre release0 post vsA wA t vsB wB.
               releases = pre @ release0 # post
               \<and> releasesLoop env targetOrg repository (latestIDof latest) pre
                    \<lparr>failed = 0, newLatestReleaseID = 0\<rparr> w2 = Return (vsA, wA)
               \<and> findOrCreate env targetOrg repository (rewriteBody env release0) vsA wA
                    = Return ((Proceed t, vsB), wB)
               \<and> latestIDof latest \<noteq> 0
               \<and> GetID (Some release0) = latestIDof latest
               \<and> (\<forall>r \<in> set post. GetID (Some r) \<noteq> latestIDof latest)
               \<longrightarrow> newLatestReleaseID vs = GetID t
                   \<and> (GetID t \<noteq> 0 \<longrightarrow>
                         filter isEditRelease cs = [CallEditRelease targetOrg repository (GetID t)]))"
proof -
  from run obtain owner repository where
    sp: "splitRepository env repository0 = Return (owner, repository)"
    by (auto simp: migrateRepositoryReleases_def split: result.splits)
  from run sp obtain releases w1 where
    ls: "GetSourceRepositoryReleases env owner repository w = Some (Return ((releases, None), w1))"
    by (auto simp: migrateRepositoryReleases_def Let_def split: option.splits result.splits)
  from run sp ls obtain latest w2 where
    lt: "GetSourceRepositoryLatestRelease env owner repository w1 = Return (latest, w2)"
    by (auto simp: migrateRepositoryReleases_def Let_def split: result.splits)
  let ?start = "\<lparr>failed = 0, newLatestReleaseID = 0\<rparr>"
  from run sp ls lt obtain vs w3 where
    lp: "releasesLoop env targetOrg repository (latestIDof latest) releases ?start w2 = Return (vs, w3)"
    by (auto simp: migrateRepositoryReleases_def Let_def latestIDof_def targetOrg split: result.splits)
  from run sp ls lt lp have last:
    "\<exists>cs. trace w' = trace w3 @ cs
       \<and> cs = (if newLatestReleaseID vs \<noteq> 0
               then [CallEditRelease targetOrg repository (newLatestReleaseID vs)] else [])"
    by (auto simp: migrateRepositoryReleases_def Let_def latestIDof_def targetOrg
          dest: SetLatestRelease_trace split: result.splits if_splits)
  from ls obtain c where
    "ListReleases_loop env c owner repository 0 [] w = Some ((releases, None), w1)"
    by (auto simp: GetSourceRepositoryReleases_def split: result.splits option.splits)
  from ListReleases_loop_trace [OF this] obtain cs1 where
    "trace w1 = trace w @ cs1" "\<forall>x \<in> set cs1. \<exists>ow re p. x = CallListReleases ow re p"
    by auto
  then have cs1: "trace w1 = trace w @ cs1" "filter isEditRelease cs1 = []"
    by (auto simp: filter_empty_conv)
  from GetSourceRepositoryLatestRelease_trace [OF lt] have
    cs2: "trace w2 = trace w1 @ [CallGetLatestRelease owner repository]" .
  from releasesLoop_calls [OF lp] obtain cs3 where
    "trace w3 = trace w2 @ cs3" "\<forall>c \<in> set cs3. \<not> isEditRelease c"
    by auto
  then have cs3: "trace w3 = trace w2 @ cs3" "filter isEditRelease cs3 = []"
    by (auto simp: filter_empty_conv)
  from last obtain cs4 where cs4: "trace w' = trace w3 @ cs4"
    "cs4 = (if newLatestReleaseID vs \<noteq> 0
            then [CallEditRelease targetOrg repository (newLatestReleaseID vs)] else [])"
    by blast
  let ?cs = "cs1 @ [CallGetLatestRelease owner repository] @ cs3 @ cs4"
  have tr: "trace w' = trace w @ ?cs"
    using cs1 cs2 cs3 cs4 by simp
  have edits: "filter isEditRelease ?cs =
             (if newLatestReleaseID vs \<noteq> 0
              then [CallEditRelease targetOrg repository (newLatestReleaseID vs)] else [])"
    using cs1 cs3 cs4 by simp
  have origin: "newLatestReleaseID vs = 0
       \<or> (latestIDof latest \<noteq> 0
          \<and> (\<exists>pre release0 post vsA wA t vsB wB.
                 releases = pre @ release0 # post
               \<and> releasesLoop env targetOrg repository (latestIDof latest) pre ?start w2 = Return (vsA, wA)
               \<and> findOrCreate env targetOrg repository (rewriteBody env release0) vsA wA
                    = Return ((Proceed t, vsB), wB)
               \<and> GetID (Some release0) = latestIDof latest
               \<and> newLatestReleaseID vs = GetID t))"
    using releasesLoop_candidate_origin [OF lp] by simp
  have failed_fetch: "(\<exists>e. latest = Inl e) \<longrightarrow> newLatestReleaseID vs = 0"
    using releasesLoop_candidate_unchanged [OF lp] by (auto simp: latestIDof_def)
  have "last": "\<forall>pre release0 post vsA wA t vsB wB.
               releases = pre @ release0 # post
               \<and> releasesLoop env targetOrg repository (latestIDof latest) pre ?start w2 = Return (vsA, wA)
               \<and> findOrCreate env targetOrg repository (rewriteBody env release0) vsA wA
                    = Return ((Proceed t, vsB), wB)
               \<and> latestIDof latest \<noteq> 0
               \<and> GetID (Some release0) = latestIDof latest
               \<and> (\<forall>r \<in> set post. GetID (Some r) \<noteq> latestIDof latest)
               \<longrightarrow> newLatestReleaseID vs = GetID t
                   \<and> (GetID t \<noteq> 0 \<longrightarrow>
                         filter isEditRelease ?cs = [CallEditRelease targetOrg repository (GetID t)])"
  proof (intro allI impI, elim conjE)
    fix pre release0 post vsA wA t vsB wB
    assume a: "releases = pre @ release0 # post"
      "releasesLoop env targetOrg repository (latestIDof latest) pre ?start w2 = Return (vsA, wA)"
      "findOrCreate env targetOrg repository (rewriteBody env release0) vsA wA = Return ((Proceed t, vsB), wB)"
      "latestIDof latest \<noteq> 0" "GetID (Some release0) = latestIDof latest"
      "\<forall>r \<in> set post. GetID (Some r) \<noteq> latestIDof latest"
    from lp a(1) have "releasesLoop env targetOrg repository (latestIDof latest) (pre @ release0 # post) ?start w2
                         = Return (vs, w3)" by simp
    from releasesLoop_candidate_last [OF this a(2) a(3) a(4) a(5) a(6)]
    have "newLatestReleaseID vs = GetID t" .
    with edits show "newLatestReleaseID vs = GetID t
                   \<and> (GetID t \<noteq> 0 \<longrightarrow>
                         filter isEditRelease ?cs = [CallEditRelease targetOrg repository (GetID t)])"
      by simp
  qed
  show ?thesis
    apply (rule exI [of _ owner], rule exI [of _ repository], rule exI [of _ releases],
        rule exI [of _ w1], rule exI [of _ latest], rule exI [of _ w2], rule exI [of _ vs],
        rule exI [of _ w3], rule exI [of _ ?cs])
    apply (intro conjI)
    subgoal by (rule sp)
    subgoal by (rule ls)
    subgoal by (rule lt)
    subgoal by (rule lp)
    subgoal by (rule tr)
    subgoal by (rule edits)
    subgoal using edits by simp
    subgoal using edits failed_fetch by simp
    subgoal using origin by blast
    subgoal by (rule "last")
    done
qed


theorem at_most_one_edit_latest_witness:
  "\<exists>res w' (vs::loop_vars). migrateRepositoryReleases host_env ''repo'' (start fresh_host) = Some (Return (res, w'))
     \<and> newLatestReleaseID vs = 1
     \<and> filter isEditRelease (trace w') = [CallEditRelease ''dst'' ''repo'' (newLatestReleaseID vs)]"
proof -
  have "map_option (map_result (\<lambda>(x, w). filter isEditRelease (trace w)))
          (migrateRepositoryReleases host_env ''repo'' (start fresh_host))
        = Some (Return [CallEditRelease ''dst'' ''repo'' 1])"
    by code_simp
  then obtain x where x: "migrateRepositoryReleases host_env ''repo'' (start fresh_host) = Some (Return x)"
    "(\<lambda>(x, w). filter isEditRelease (trace w)) x = [CallEditRelease ''dst'' ''repo'' 1]"
    by (rule map_outcome_Return)
  obtain res w' where res: "x = (res, w')" by (cases x)
  with x have run: "migrateRepositoryReleases host_env ''repo'' (start fresh_host) = Some (Return (res, w'))"
    and edits: "filter isEditRelease (trace w') = [CallEditRelease ''dst'' ''repo'' 1]"
    by simp_all
  from at_most_one_edit_latest [OF run refl] obtain repository and vs :: loop_vars and cs where
    "trace w' = trace (start fresh_host) @ cs"
    "filter isEditRelease cs =
       (if newLatestReleaseID vs \<noteq> 0
        then [CallEditRelease (GetString host_env ''TARGET_ORGANIZATION'') repository (newLatestReleaseID vs)]
        else [])"
    by blast
  with edits have "newLatestReleaseID vs = 1"
    by (auto simp: start_def split: if_splits)
  with run edits show ?thesis
    by (intro exI [of _ res] exI [of _ w'] exI [of _ vs]) simp
qed

subsection \<open>How the process ends\<close>

lemma Split_nonempty: "Split s sep \<noteq> []"
  by (induction s) (auto split: list.splits)

lemma Split_two: "sep \<in> set s \<Longrightarrow> \<exists>p q ps. Split s sep = p # q # ps"
proof (induction s)
  case Nil
  then show ?case by simp
next
  case (Cons c cs)
  show ?case
  proof (cases "c = sep")
    case True
    then show ?thesis using Split_nonempty [of cs sep] by (cases "Split cs sep") auto
  next
    case False
    with Cons show ?thesis by (auto split: list.splits)
  qed
qed

lemma Contains_char: "Contains s [c] \<longleftrightarrow> c \<in> set s"
  unfolding Contains_def
proof (induction s)
  case Nil
  then show ?case by simp
next
  case (Cons x xs)
  then show ?case by (simp add: sublist_Cons_right prefix_Cons)
qed

lemma splitRepository_returns: "\<exists>owner repository. splitRepository env repository0 = Return (owner, repository)"
proof (cases "Contains repository0 ''/''")
  case True
  then have "CHR ''/'' \<in> set repository0" by (simp add: Contains_char)
  from Split_two [OF this] True show ?thesis by (auto simp: splitRepository_def)
next
  case False
  then show ?thesis by (simp add: splitRepository_def)
qed

lemma GetReleaseByTag_returns:
  assumes "newGHRestClient env (GetString env ''TARGET_TOKEN'') [] = Return ct"
  shows "\<exists>r w'. GetReleaseByTag env owner repository tagName w = Return (r, w')"
  using assms
  by (auto simp: GetReleaseByTag_def Let_def split: prod.splits gh_reply.splits option.splits)

lemma ReleaseExists_returns:
  assumes "newGHRestClient env (GetString env ''TARGET_TOKEN'') [] = Return ct"
  shows "\<exists>r w'. ReleaseExists env owner repository release w = Return (r, w')"
proof (cases release)
  case None
  then show ?thesis by (auto simp: ReleaseExists_def)
next
  case (Some r)
  obtain x w' where "GetReleaseByTag env owner repository (GetTagName release) w = Return (x, w')"
    using GetReleaseByTag_returns [OF assms] by blast
  with Some show ?thesis
    by (cases x) (auto simp: ReleaseExists_def Let_def)
qed

lemma CreateRelease_returns:
  assumes "newGHRestClient env (GetString env ''TARGET_TOKEN'') [] = Return ct"
    and "viper env ''TARGET_ORGANIZATION'' \<noteq> None"
  shows "\<exists>r w'. CreateRelease env repository release w = Return (r, w')"
  using assms
  by (auto simp: CreateRelease_def Get_string_def Let_def split: prod.splits gh_reply.splits)

lemma SetLatestRelease_returns:
  assumes "newGHRestClient env (GetString env ''TARGET_TOKEN'') [] = Return ct"
  shows "\<exists>r w'. SetLatestRelease env owner repository releaseID w = Return (r, w')"
  using assms
  by (auto simp: SetLatestRelease_def Let_def split: prod.splits gh_reply.splits)

lemma DownloadReleaseAssets_returns:
  assumes "viper env ''SOURCE_TOKEN'' \<noteq> None"
    and "\<forall>url. http_NewRequest env ''GET'' url = None"
  shows "\<exists>r w'. DownloadReleaseAssets env asset w = Return (r, w')"
  using assms
  by (auto simp: DownloadReleaseAssets_def DownloadFileFromURL_def Get_string_def Let_def
        split: prod.splits option.splits http_reply.splits)

lemma UploadAssetViaURL_returns:
  assumes "viper env ''TARGET_TOKEN'' \<noteq> None"
    and "Asset_ContentType asset \<noteq> None"
  shows "\<exists>r w'. UploadAssetViaURL env uploadURL asset w = Return (r, w')"
  using assms
  by (auto simp: UploadAssetViaURL_def RemoveFile_def Get_string_def Let_def
        split: prod.splits option.splits sum.splits http_reply.splits)

lemma assetsLoop_returns:
  assumes "viper env ''SOURCE_TOKEN'' \<noteq> None"
    and "\<forall>url. http_NewRequest env ''GET'' url = None"
    and "viper env ''TARGET_TOKEN'' \<noteq> None"
  shows "\<forall>a \<in> set assets. Asset_ContentType a \<noteq> None
           \<Longrightarrow> \<exists>w'. assetsLoop env newRelease assets w = Return w'"
proof (induction assets arbitrary: w)
  case Nil
  then show ?case by simp
next
  case (Cons asset rest)
  then have rest: "\<exists>w'. assetsLoop env newRelease rest w = Return w'" for w by simp
  obtain e w1 where d: "DownloadReleaseAssets env asset w = Return (e, w1)"
    using DownloadReleaseAssets_returns [OF assms(1,2)] by blast
  obtain e2 w2 where u: "UploadAssetViaURL env (GetUploadURL newRelease) asset w1 = Return (e2, w2)"
    using UploadAssetViaURL_returns [OF assms(3)] Cons.prems by fastforce
  show ?case
    using d u rest [of w] rest [of w1] rest [of w2] by (cases e) auto
qed


lemma findOrCreate_returns:
  assumes "newGHRestClient env (GetString env ''TARGET_TOKEN'') [] = Return ct"
    and "viper env ''TARGET_ORGANIZATION'' \<noteq> None"
  shows "\<exists>r w'. findOrCreate env targetOrg repository release vs w = Return (r, w')"
proof -
  obtain existing releaseExists w1 where
    re: "ReleaseExists env targetOrg repository (Some release) w = Return ((existing, releaseExists), w1)"
    using ReleaseExists_returns [OF assms(1)] by (metis surj_pair)
  obtain x w2 where cr: "CreateRelease env repository release w1 = Return (x, w2)"
    using CreateRelease_returns [OF assms] by blast
  obtain y w3 where g: "GetReleaseByTag env targetOrg repository (GetTagName (Some release)) w2 = Return (y, w3)"
    using GetReleaseByTag_returns [OF assms(1)] by blast
  show ?thesis
    using re cr g by (cases x; cases y) (auto simp: findOrCreate_def)
qed

lemma Release_Assets_rewriteBody [simp]: "Release_Assets (rewriteBody env r) = Release_Assets r"
  by (simp add: rewriteBody_def AddSourceTimeStamps_def Let_def)

lemma loopBody_returns:
  assumes "newGHRestClient env (GetString env ''TARGET_TOKEN'') [] = Return ct"
    and "viper env ''TARGET_ORGANIZATION'' \<noteq> None"
    and "viper env ''SOURCE_TOKEN'' \<noteq> None"
    and "\<forall>url. http_NewRequest env ''GET'' url = None"
    and "viper env ''TARGET_TOKEN'' \<noteq> None"
    and "\<forall>a \<in> set (Release_Assets release0). Asset_ContentType a \<noteq> None"
  shows "\<exists>r w'. loopBody env targetOrg repository latestID release0 vs w = Return (r, w')"
proof -
  obtain st vs1 w1 where
    f: "findOrCreate env targetOrg repository (rewriteBody env release0) vs w = Return ((st, vs1), w1)"
    using findOrCreate_returns [OF assms(1,2)] by (metis surj_pair)
  show ?thesis
  proof (cases st)
    case Continue
    with f show ?thesis by (simp add: loopBody_def Let_def)
  next
    case (Proceed newRelease)
    obtain w2 where "assetsLoop env newRelease (Release_Assets (rewriteBody env release0)) w1 = Return w2"
      using assetsLoop_returns [OF assms(3,4,5)] assms(6) by (metis Release_Assets_rewriteBody)
    with f Proceed show ?thesis by (simp add: loopBody_def Let_def)
  qed
qed

lemma releasesLoop_returns:
  assumes "newGHRestClient env (GetString env ''TARGET_TOKEN'') [] = Return ct"
    and "viper env ''TARGET_ORGANIZATION'' \<noteq> None"
    and "viper env ''SOURCE_TOKEN'' \<noteq> None"
    and "\<forall>url. http_NewRequest env ''GET'' url = None"
    and "viper env ''TARGET_TOKEN'' \<noteq> None"
  shows "with_content_types releases
           \<Longrightarrow> \<exists>r w'. releasesLoop env targetOrg repository latestID releases vs w = Return (r, w')"
proof (induction releases arbitrary: vs w)
  case Nil
  then show ?case by simp
next
  case (Cons release rest)
  then have "\<forall>a \<in> set (Release_Assets release). Asset_ContentType a \<noteq> None"
    and rest: "with_content_types rest"
    by (simp_all add: with_content_types_def)
  from loopBody_returns [OF assms this(1)] obtain vs1 w1 where
    "loopBody env targetOrg repository latestID release vs w = Return (vs1, w1)"
    by blast
  with Cons.IH [OF rest, of vs1 w1] show ?case by simp
qed

lemma GetSourceRepositoryLatestRelease_returns:
  assumes "newGHRestClient env (GetString env ''SOURCE_TOKEN'') (GetString env ''SOURCE_HOSTNAME'') = Return cs"
    and "\<forall>owner repository h e h'.
           Repositories_GetLatestRelease env cs owner repository h \<noteq> (Failure None e, h')"
  shows "\<exists>r w'. GetSourceRepositoryLatestRelease env owner repository w = Return (r, w')"
proof -
  obtain reply h where o: "Repositories_GetLatestRelease env cs owner repository (ext w) = (reply, h)"
    by (cases "Repositories_GetLatestRelease env cs owner repository (ext w)") blast
  show ?thesis
  proof (cases reply)
    case (Reply r resp)
    with o assms(1) show ?thesis by (simp add: GetSourceRepositoryLatestRelease_def Let_def)
  next
    case (Failure resp e)
    with o assms(2) obtain r where "resp = Some r" by (cases resp) auto
    with Failure o assms(1) show ?thesis by (simp add: GetSourceRepositoryLatestRelease_def Let_def)
  qed
qed

lemma migrateRepositoryReleases_returns:
  assumes src: "newGHRestClient env (GetString env ''SOURCE_TOKEN'') (GetString env ''SOURCE_HOSTNAME'') = Return cs"
    and tgt: "newGHRestClient env (GetString env ''TARGET_TOKEN'') [] = Return ct"
    and listing: "\<forall>owner repository w. \<exists>releases w1.
                    ListReleases_loop env cs owner repository 0 [] w = Some ((releases, None), w1)
                    \<and> with_content_types releases"
    and latest: "\<forall>owner repository h e h'.
                   Repositories_GetLatestRelease env cs owner repository h \<noteq> (Failure None e, h')"
    and cfg: "viper env ''TARGET_ORGANIZATION'' \<noteq> None" "viper env ''SOURCE_TOKEN'' \<noteq> None"
    and req: "\<forall>url. http_NewRequest env ''GET'' url = None"
    and ttoken: "viper env ''TARGET_TOKEN'' \<noteq> None"
  shows "\<exists>releasesCount failedCount e w'.
           migrateRepositoryReleases env repository0 w = Some (Return ((releasesCount, failedCount, e), w'))"
proof -
  obtain owner repository where sp: "splitRepository env repository0 = Return (owner, repository)"
    using splitRepository_returns by blast
  from listing obtain releases w1 where
    l: "ListReleases_loop env cs owner repository 0 [] w = Some ((releases, None), w1)"
    and good: "with_content_types releases"
    by blast
  from l src have ls: "GetSourceRepositoryReleases env owner repository w = Some (Return ((releases, None), w1))"
    by (simp add: GetSourceRepositoryReleases_def)
  obtain lt w2 where lr: "GetSourceRepositoryLatestRelease env owner repository w1 = Return (lt, w2)"
    using GetSourceRepositoryLatestRelease_returns [OF src latest] by blast
  obtain vs w3 where lp: "releasesLoop env (GetString env ''TARGET_ORGANIZATION'') repository (latestIDof lt)
                            releases \<lparr>failed = 0, newLatestReleaseID = 0\<rparr> w2 = Return (vs, w3)"
    using releasesLoop_returns [OF tgt cfg req ttoken good] by blast
  obtain e w4 where sl: "SetLatestRelease env (GetString env ''TARGET_ORGANIZATION'') repository
                           (newLatestReleaseID vs) w3 = Return (e, w4)"
    using SetLatestRelease_returns [OF tgt] by blast
  obtain a b c where fin: "finish releases vs = (a, b, c)"
    by (cases "finish releases vs") blast
  show ?thesis
    using sp ls lr lp sl fin
    by (auto simp: migrateRepositoryReleases_def Let_def latestIDof_def)
qed


lemma repositoriesLoop_returns:
  assumes "\<And>repository0 w. \<exists>releasesCount failedCount e w'.
           migrateRepositoryReleases env repository0 w = Some (Return ((releasesCount, failedCount, e), w'))"
  shows "\<exists>totals' w'. repositoriesLoop env repositories totals w = Some (Return (totals', w'))"
proof (induction repositories arbitrary: totals w)
  case Nil
  then show ?case by simp
next
  case (Cons repository rest)
  from assms [of repository w] obtain a b e w1 where
    "migrateRepositoryReleases env repository w = Some (Return ((a, b, e), w1))" by blast
  with Cons [of "(fst totals + a, snd totals + b)" w1] show ?case by simp
qed

lemma report_returns:
  assumes "newGHRestClient env (GetString env ''TARGET_TOKEN'') [] = Return ct"
    and "GetDatafromGitHubContext env \<noteq> Panic"
  shows "\<exists>w'. report env a b w = Returned a b w'"
proof -
  from assms(2) obtain organization repository issueNumber e where
    g: "GetDatafromGitHubContext env = Return (organization, repository, issueNumber, e)"
    by (cases "GetDatafromGitHubContext env") auto
  have "\<exists>e' w1. WriteToIssue env organization repository issueNumber (summaryTable a b) w = Return (e', w1)"
    using assms(1)
    by (auto simp: WriteToIssue_def Let_def split: prod.splits gh_reply.splits)
  then obtain e' w1 where
    "WriteToIssue env organization repository issueNumber (summaryTable a b) w = Return (e', w1)"
    by blast
  with g show ?thesis by (auto simp: report_def Let_def)
qed

lemma SyncReleases_exit:
  "SyncReleases env w = Some (Exit n) \<longleftrightarrow> n = 1 \<and> (configuration_error env \<or> unreadable_list env)"
proof -
  have r: "report env a b w1 \<noteq> Exit n" for a b w1
    by (auto simp: report_def Let_def split: result.splits prod.splits)
  show ?thesis
    using r
    by (auto simp: SyncReleases_def checkVars_def configuration_error_def unreadable_list_def
          split: option.splits sum.splits result.splits prod.splits if_splits)
qed

text \<open>
  C8, as the code has it. The process exits through \<^verbatim>\<open>os.Exit\<close> exactly for a
  configuration error or a repository list that cannot be read, and the status is 1. It
  also ends, by a panic, when the client of the source cannot be built and when the listing
  of the source releases fails. When the clients and the listing work and the inputs are
  complete, the driver returns with its two counters whatever the lookups by tag, the
  creations, the downloads, the uploads, the fetch of the latest release and the edit call
  answer: no hypothesis is made on them.
\<close>

theorem abort_only_by_exit_client_or_listing:
  "(\<forall>n. SyncReleases env w = Some (Exit n) \<longleftrightarrow>
          n = 1 \<and> (configuration_error env \<or> unreadable_list env))
   \<and> (\<not> configuration_error env \<and> GetString env ''REPOSITORY_LIST'' = []
        \<and> newGHRestClient env (GetString env ''SOURCE_TOKEN'') (GetString env ''SOURCE_HOSTNAME'') = Panic
        \<longrightarrow> SyncReleases env w = Some Panicked)
   \<and> (\<not> configuration_error env \<and> GetString env ''REPOSITORY_LIST'' = []
        \<and> (\<exists>owner repository releases e w1.
               splitRepository env (GetString env ''REPOSITORY'') = Return (owner, repository)
             \<and> GetSourceRepositoryReleases env owner repository w = Some (Return ((releases, Some e), w1)))
        \<longrightarrow> SyncReleases env w = Some Panicked)
   \<and> (clients_and_listing_work env \<and> inputs_complete env
        \<and> \<not> configuration_error env \<and> \<not> unreadable_list env
        \<longrightarrow> (\<exists>releasesCount failedCount w'.
               SyncReleases env w = Some (Returned releasesCount failedCount w')))"
proof (intro conjI allI impI)
  fix n
  show "SyncReleases env w = Some (Exit n) \<longleftrightarrow> n = 1 \<and> (configuration_error env \<or> unreadable_list env)"
    by (rule SyncReleases_exit)
next
  assume a: "\<not> configuration_error env \<and> GetString env ''REPOSITORY_LIST'' = []
        \<and> newGHRestClient env (GetString env ''SOURCE_TOKEN'') (GetString env ''SOURCE_HOSTNAME'') = Panic"
  obtain owner repository where "splitRepository env (GetString env ''REPOSITORY'') = Return (owner, repository)"
    using splitRepository_returns by blast
  with a have "migrateRepositoryReleases env (GetString env ''REPOSITORY'') w = Some Panic"
    by (simp add: migrateRepositoryReleases_def GetSourceRepositoryReleases_def Let_def)
  with a show "SyncReleases env w = Some Panicked"
    by (auto simp: SyncReleases_def checkVars_def configuration_error_def)
next
  assume a: "\<not> configuration_error env \<and> GetString env ''REPOSITORY_LIST'' = []
        \<and> (\<exists>owner repository releases e w1.
               splitRepository env (GetString env ''REPOSITORY'') = Return (owner, repository)
             \<and> GetSourceRepositoryReleases env owner repository w = Some (Return ((releases, Some e), w1)))"
  then have "migrateRepositoryReleases env (GetString env ''REPOSITORY'') w = Some Panic"
    by (auto simp: migrateRepositoryReleases_def Let_def)
  with a show "SyncReleases env w = Some Panicked"
    by (auto simp: SyncReleases_def checkVars_def configuration_error_def)
next
  assume a: "clients_and_listing_work env \<and> inputs_complete env
        \<and> \<not> configuration_error env \<and> \<not> unreadable_list env"
  then obtain cs ct where
    src: "newGHRestClient env (GetString env ''SOURCE_TOKEN'') (GetString env ''SOURCE_HOSTNAME'') = Return cs"
    and tgt: "newGHRestClient env (GetString env ''TARGET_TOKEN'') [] = Return ct"
    and listing: "\<forall>owner repository w. \<exists>releases w1.
             ListReleases_loop env cs owner repository 0 [] w = Some ((releases, None), w1)
             \<and> with_content_types releases"
    and latest: "\<forall>owner repository h e h'.
             Repositories_GetLatestRelease env cs owner repository h \<noteq> (Failure None e, h')"
    unfolding clients_and_listing_work_def by blast
  from a have cfg: "viper env ''TARGET_ORGANIZATION'' \<noteq> None" "viper env ''SOURCE_TOKEN'' \<noteq> None"
    and req: "\<forall>url. http_NewRequest env ''GET'' url = None"
    and ttoken: "viper env ''TARGET_TOKEN'' \<noteq> None"
    and ctx: "GetDatafromGitHubContext env \<noteq> Panic"
    by (simp_all add: inputs_complete_def)
  note m = migrateRepositoryReleases_returns [OF src tgt listing latest cfg req ttoken]
  note rep = report_returns [OF tgt ctx]
  show "\<exists>releasesCount failedCount w'. SyncReleases env w = Some (Returned releasesCount failedCount w')"
  proof (cases "GetString env ''REPOSITORY_LIST'' = []")
    case True
    from m [of "GetString env ''REPOSITORY''" w] obtain c f e w1 where
      "migrateRepositoryReleases env (GetString env ''REPOSITORY'') w = Some (Return ((c, f, e), w1))"
      by blast
    moreover from rep [of c f w1] obtain w2 where "report env c f w1 = Returned c f w2" by blast
    ultimately show ?thesis
      using a True by (auto simp: SyncReleases_def checkVars_def configuration_error_def)
  next
    case False
    with a obtain repositories where
      l: "repository_list_file env (GetString env ''REPOSITORY_LIST'') = Inr repositories"
      by (cases "repository_list_file env (GetString env ''REPOSITORY_LIST'')")
         (auto simp: unreadable_list_def)
    from repositoriesLoop_returns [of env repositories "(0, 0)" w] m obtain c f w1 where
      "repositoriesLoop env repositories (0, 0) w = Some (Return ((c, f), w1))"
      by (metis surj_pair)
    moreover from rep [of c f w1] obtain w2 where "report env c f w1 = Returned c f w2" by blast
    ultimately show ?thesis
      using a False l by (auto simp: SyncReleases_def checkVars_def configuration_error_def)
  qed
qed


text \<open>
  The claim as stated has the process abort for a configuration error or an unreadable
  list only. With a valid configuration and no list it panics when the enterprise URLs of
  the source client cannot be built, and when the listing of the source releases fails.
\<close>

theorem abort_by_client_or_listing_counterexample:
  "\<not> configuration_error enterprise_env \<and> \<not> unreadable_list enterprise_env
   \<and> SyncReleases enterprise_env (start fresh_host) = Some Panicked
   \<and> \<not> configuration_error listing_fails_env \<and> \<not> unreadable_list listing_fails_env
   \<and> SyncReleases listing_fails_env (start fresh_host) = Some Panicked"
proof -
  have p: "panicked r \<Longrightarrow> r = Some Panicked" for r :: "host ending option"
    by (auto simp: panicked_def split: option.splits ending.splits)
  have 1: "panicked (SyncReleases enterprise_env (start fresh_host))"
    "panicked (SyncReleases listing_fails_env (start fresh_host))"
    by code_simp+
  have 2: "\<not> configuration_error enterprise_env" "\<not> configuration_error listing_fails_env"
    by code_simp+
  have 3: "GetString enterprise_env ''REPOSITORY_LIST'' = []" "GetString listing_fails_env ''REPOSITORY_LIST'' = []"
    by code_simp+
  then have 4: "\<not> unreadable_list enterprise_env" "\<not> unreadable_list listing_fails_env"
    by (simp_all add: unreadable_list_def)
  from p [OF 1(1)] p [OF 1(2)] 2 4 show ?thesis by blast
qed

theorem abort_only_by_exit_client_or_listing_witness:
  "clients_and_listing_work failing_env \<and> inputs_complete failing_env
   \<and> \<not> configuration_error failing_env \<and> \<not> unreadable_list failing_env
   \<and> (\<exists>w'. SyncReleases failing_env (start fresh_host) = Some (Returned 2 1 w'))"
proof -
  have sel: "viper failing_env = config" "os_Getenv failing_env = (\<lambda>k. [])"
    "NewRateLimitWaiterClient failing_env = (\<lambda>t. None)"
    "http_NewRequest failing_env = (\<lambda>m u. None)"
    "Repositories_ListReleases failing_env =
       (\<lambda>c owner repository page h. (Reply [release_untagged, release_v1] ok, h))"
    "Repositories_GetLatestRelease failing_env =
       (\<lambda>c owner repository h. (Failure (Some (status 404)) ''404 Not Found'', h))"
    by (simp_all add: failing_env_def) (simp add: host_env_def)
  have strings: "GetString failing_env ''SOURCE_TOKEN'' = ''s3cret''" "GetString failing_env ''SOURCE_HOSTNAME'' = []"
    "GetString failing_env ''TARGET_TOKEN'' = ''t0ken''" "GetString failing_env ''REPOSITORY_LIST'' = []"
    by (simp_all add: GetString_def sel config_def)
  have good: "with_content_types [release_untagged, release_v1]"
    by (simp add: with_content_types_def release_untagged_def release_v1_def build_zip_def)
  have listing: "ListReleases_loop failing_env c owner repository 0 [] w =
                   Some (([release_untagged, release_v1], None), record_call (CallListReleases owner repository 0) (ext w) w)"
    for c owner repository and w :: "host world"
    by (subst ListReleases_loop.simps) (simp add: sel ok_def)
  have a: "clients_and_listing_work failing_env"
    unfolding clients_and_listing_work_def
    by (intro exI [of _ "Client ''s3cret'' []"] exI [of _ "Client ''t0ken'' []"])
       (simp add: newGHRestClient_def strings sel listing good)
  have b: "inputs_complete failing_env"
    by (simp add: inputs_complete_def sel GetDatafromGitHubContext_def Let_def)
  have c: "\<not> configuration_error failing_env"
    by code_simp
  have d: "\<not> unreadable_list failing_env"
    by (simp add: unreadable_list_def strings)
  have seen: "ending_seen (SyncReleases failing_env (start fresh_host)) = Some (2, 1)"
    by code_simp
  from abort_only_by_exit_client_or_listing [of failing_env "start fresh_host"] a b c d
  obtain releasesCount failedCount w' where
    r: "SyncReleases failing_env (start fresh_host) = Some (Returned releasesCount failedCount w')"
    by blast
  with seen have "releasesCount = 2" "failedCount = 1"
    by (simp_all add: ending_seen_def)
  with r a b c d show ?thesis by blast
qed

end
